theory Spec2Isabelle
  imports Main "HOL-Library.AList" "HOL-Library.Multiset"
begin

section \<open>Values loaded from YAML and JSON documents\<close>

text \<open>
  \<open>yaml.safe_load\<close> and \<open>json.load\<close> return Python values built from \<open>None\<close>, booleans,
  integers, strings, lists and dicts. A dict is kept as an association list in insertion
  order, as Python keeps it. A key of a dict is a hashable scalar: always a string in
  JSON, possibly \<open>None\<close>, a boolean or an integer in YAML. The keys of a loaded dict are
  pairwise distinct under Python's equality. A value is a finite tree: a YAML document
  whose anchors make a list or dict contain itself is outside the model, and so are
  floating-point scalars.
\<close>

datatype pykey = KNone | KBool bool | KInt int | KStr string

datatype pyval =
    PNone
  | PBool bool
  | PInt int
  | PStr string
  | PList "pyval list"
  | PDict "(pykey \<times> pyval) list"

text \<open>The exceptions that the modelled code can raise.\<close>

datatype error =
    KeyError
  | TypeError
  | AttributeError
  | ValueError
  | IndexError
  | FileNotFoundError
  | UnknownTimeZoneError
  | YAMLError
  | UnboundLocalError

text \<open>Truth value of a Python object, as tested by \<open>if x\<close> and \<open>not x\<close>.\<close>

fun truthy :: "pyval \<Rightarrow> bool" where
  "truthy PNone = False"
| "truthy (PBool b) = b"
| "truthy (PInt i) = (i \<noteq> 0)"
| "truthy (PStr s) = (s \<noteq> [])"
| "truthy (PList xs) = (xs \<noteq> [])"
| "truthy (PDict kvs) = (kvs \<noteq> [])"

text \<open>A key as a value, its truth value, and whether a value can be a key at all.\<close>

fun key_val :: "pykey \<Rightarrow> pyval" where
  "key_val KNone = PNone"
| "key_val (KBool b) = PBool b"
| "key_val (KInt i) = PInt i"
| "key_val (KStr s) = PStr s"

definition key_truthy :: "pykey \<Rightarrow> bool" where
  "key_truthy k = truthy (key_val k)"

fun key_of :: "pyval \<Rightarrow> pykey option" where
  "key_of PNone = Some KNone"
| "key_of (PBool b) = Some (KBool b)"
| "key_of (PInt i) = Some (KInt i)"
| "key_of (PStr s) = Some (KStr s)"
| "key_of (PList xs) = None"
| "key_of (PDict kvs) = None"

text \<open>
  Two keys are the same key of a dict when Python's \<open>==\<close> holds: a boolean is the
  integer 0 or 1, and otherwise the two are the same scalar.
\<close>

fun key_same :: "pykey \<Rightarrow> pykey \<Rightarrow> bool" where
  "key_same (KBool a) (KInt i) = ((if a then 1 else 0) = i)"
| "key_same (KInt i) (KBool b) = (i = (if b then 1 else 0))"
| "key_same a b = (a = b)"

text \<open>The dict lookup for any key: the value of the entry with the same key.\<close>

fun py_get :: "(pykey \<times> pyval) list \<Rightarrow> pykey \<Rightarrow> pyval option" where
  "py_get [] k = None"
| "py_get ((k', v) # kvs) k = (if key_same k' k then Some v else py_get kvs k)"

text \<open>
  \<open>d.get(k)\<close> for a string \<open>k\<close>: the value stored under \<open>k\<close>, or \<open>None\<close>. Only a
  string key equals a string, so \<open>map_of\<close> at \<open>KStr k\<close> is the lookup.
\<close>

definition dict_get :: "(pykey \<times> pyval) list \<Rightarrow> string \<Rightarrow> pyval" where
  "dict_get kvs k = (case map_of kvs (KStr k) of None \<Rightarrow> PNone | Some v \<Rightarrow> v)"

text \<open>\<open>isinstance(v, (list, dict))\<close>.\<close>

fun is_container :: "pyval \<Rightarrow> bool" where
  "is_container (PList xs) = True"
| "is_container (PDict kvs) = True"
| "is_container v = False"

subsection \<open>Formatting inside f-strings\<close>

definition digit_char :: "nat \<Rightarrow> char" where
  "digit_char d =
     (if d = 0 then CHR ''0'' else if d = 1 then CHR ''1'' else if d = 2 then CHR ''2''
      else if d = 3 then CHR ''3'' else if d = 4 then CHR ''4'' else if d = 5 then CHR ''5''
      else if d = 6 then CHR ''6'' else if d = 7 then CHR ''7'' else if d = 8 then CHR ''8''
      else CHR ''9'')"

text \<open>Decimal rendering of a natural number (\<open>str(n)\<close> for \<open>n \<ge> 0\<close>).\<close>

fun str_nat :: "nat \<Rightarrow> string" where
  "str_nat n = (if n < 10 then [digit_char n] else str_nat (n div 10) @ [digit_char (n mod 10)])"

declare str_nat.simps [simp del]

definition str_int :: "int \<Rightarrow> string" where
  "str_int i = (if i < 0 then CHR ''-'' # str_nat (nat (- i)) else str_nat (nat i))"

text \<open>
  \<open>str(v)\<close>, which an f-string applies to each interpolated value. A string is rendered
  as itself. For a list or a dict Python prints the \<open>repr\<close> of the container; that
  built-in is the parameter \<open>R\<close>.
\<close>

fun key_str :: "pykey \<Rightarrow> string" where
  "key_str KNone = ''None''"
| "key_str (KBool b) = (if b then ''True'' else ''False'')"
| "key_str (KInt i) = str_int i"
| "key_str (KStr s) = s"

definition py_str :: "(pyval \<Rightarrow> string) \<Rightarrow> pyval \<Rightarrow> string" where
  "py_str R v =
     (case v of
        PNone \<Rightarrow> ''None''
      | PBool b \<Rightarrow> (if b then ''True'' else ''False'')
      | PInt i \<Rightarrow> str_int i
      | PStr s \<Rightarrow> s
      | PList xs \<Rightarrow> R v
      | PDict kvs \<Rightarrow> R v)"

section \<open>Alias Mapper: \<open>load_automation\<close>\<close>

text \<open>
  The alias mapping is the Python dict \<open>mapping\<close>: an association list in insertion order.
  \<open>mapping[k] = v\<close> is \<open>AList.update k v\<close>, which replaces the value of a key already
  present in place and appends a new key at the end. Its keys are the paths, which are
  strings, and the keys of the definition that \<open>map_steps\<close> receives as \<open>base\<close> unchanged.
\<close>

type_synonym mapping = "(pykey \<times> pyval) list"

text \<open>\<open>f"{base}/{idx}" if base else f"sequence/{idx}"\<close>\<close>

definition elem_path :: "pykey \<Rightarrow> nat \<Rightarrow> string" where
  "elem_path base idx =
     (if key_truthy base then key_str base @ ''/'' @ str_nat idx else ''sequence/'' @ str_nat idx)"

text \<open>
  \<open>path[len(nearest_alias_path):].lstrip('/') if nearest_alias_path else path\<close>, as the
  enclosing f-string prints it. \<open>len\<close> raises \<open>TypeError\<close> on a truthy
  \<open>nearest_alias_path\<close> that is not a string, and so does the slice of a \<open>path\<close> that is not
  a string.
\<close>

definition path_sublevel :: "pykey option \<Rightarrow> pykey \<Rightarrow> error + string" where
  "path_sublevel nearest_alias_path path =
     (case nearest_alias_path of
        None \<Rightarrow> Inr (key_str path)
      | Some k \<Rightarrow>
          if key_truthy k then
            (case k of
               KStr p \<Rightarrow>
                 (case path of
                    KStr s \<Rightarrow> Inr (dropWhile (\<lambda>c. c = CHR ''/'') (drop (length p) s))
                  | _ \<Rightarrow> Inl TypeError)
             | _ \<Rightarrow> Inl TypeError)
          else Inr (key_str path))"

text \<open>\<open>f"{nearest_alias}//{path_sublevel}"\<close>\<close>

definition inherited_label ::
  "(pyval \<Rightarrow> string) \<Rightarrow> pyval \<Rightarrow> pykey option \<Rightarrow> pykey \<Rightarrow> error + string" where
  "inherited_label R nearest_alias nearest_alias_path path =
     (case path_sublevel nearest_alias_path path of
        Inl e \<Rightarrow> Inl e
      | Inr sub \<Rightarrow> Inr (py_str R nearest_alias @ ''//'' @ sub))"

text \<open>
  The entry that the list branch writes for the element at \<open>path\<close> (lines 46 to 56): the
  alias of the element, or the label inherited from the nearest alias, or the path.
\<close>

definition elem_entry ::
  "(pyval \<Rightarrow> string) \<Rightarrow> string \<Rightarrow> pyval \<Rightarrow> mapping \<Rightarrow> pyval \<Rightarrow> pykey option \<Rightarrow> error + mapping" where
  "elem_entry R path local_alias m nearest_alias nearest_alias_path =
     (if truthy local_alias then Inr (AList.update (KStr path) local_alias m)
      else if truthy nearest_alias then
        (case inherited_label R nearest_alias nearest_alias_path (KStr path) of
           Inl e \<Rightarrow> Inl e
         | Inr label \<Rightarrow> Inr (AList.update (KStr path) (PStr label) m))
      else Inr (AList.update (KStr path) (PStr path) m))"

text \<open>
  The base of the call for the value under \<open>key\<close>: \<open>f"{path}/{key}"\<close> in the list branch
  and \<open>f"{base}/{key}" if base else key\<close> in the dict branch. \<open>pre\<close> is the text in front
  of the key, or \<open>None\<close> when the key itself is passed on.
\<close>

definition child_base :: "string option \<Rightarrow> pykey \<Rightarrow> pykey" where
  "child_base pre key = (case pre of None \<Rightarrow> key | Some p \<Rightarrow> KStr (p @ key_str key))"

text \<open>
  The nested function \<open>map_steps(base, steps, mapping, nearest_alias, nearest_alias_path)\<close>.
  It mutates \<open>mapping\<close>; the model returns the updated mapping, or the exception that
  ends the walk. \<open>map_elems\<close> is the loop \<open>for idx, step in enumerate(steps)\<close> of the list
  branch, started at index 0; \<open>map_items\<close> is the loop over \<open>items()\<close> of a dict. (The
  recursion limit of the interpreter is not modelled: a document that \<open>yaml.safe_load\<close>
  could compose is nested less deeply than this walk can go.)
\<close>

function map_steps ::
  "(pyval \<Rightarrow> string) \<Rightarrow> pykey \<Rightarrow> pyval \<Rightarrow> mapping \<Rightarrow> pyval \<Rightarrow> pykey option \<Rightarrow> error + mapping"
and map_elems ::
  "(pyval \<Rightarrow> string) \<Rightarrow> pykey \<Rightarrow> nat \<Rightarrow> pyval list \<Rightarrow> mapping \<Rightarrow> pyval \<Rightarrow> pykey option
     \<Rightarrow> error + mapping"
and map_items ::
  "(pyval \<Rightarrow> string) \<Rightarrow> string option \<Rightarrow> (pykey \<times> pyval) list \<Rightarrow> mapping \<Rightarrow> pyval \<Rightarrow> pykey option
     \<Rightarrow> error + mapping"
where
  "map_steps R base (PList steps) m nearest_alias nearest_alias_path =
     map_elems R base 0 steps m nearest_alias nearest_alias_path"
| "map_steps R base (PDict kvs) m nearest_alias nearest_alias_path =
     (let local_alias = dict_get kvs ''alias'';
          pre = (if key_truthy base then Some (key_str base @ ''/'') else None)
      in if truthy local_alias \<and> key_truthy base then
           map_items R pre kvs (AList.update base local_alias m) local_alias (Some base)
         else if truthy nearest_alias \<and> key_truthy base then
           (case inherited_label R nearest_alias nearest_alias_path base of
              Inl e \<Rightarrow> Inl e
            | Inr label \<Rightarrow>
                map_items R pre kvs (AList.update base (PStr label) m)
                  nearest_alias nearest_alias_path)
         else if key_truthy base then
           map_items R pre kvs (AList.update base (key_val base) m)
             nearest_alias nearest_alias_path
         else
           map_items R pre kvs m nearest_alias nearest_alias_path)"
| "map_steps R base PNone m nearest_alias nearest_alias_path = Inr m"
| "map_steps R base (PBool b) m nearest_alias nearest_alias_path = Inr m"
| "map_steps R base (PInt i) m nearest_alias nearest_alias_path = Inr m"
| "map_steps R base (PStr s) m nearest_alias nearest_alias_path = Inr m"
| "map_elems R base idx [] m nearest_alias nearest_alias_path = Inr m"
| "map_elems R base idx (step # steps) m nearest_alias nearest_alias_path =
     (let path = elem_path base idx;
          local_alias = (case step of PDict kvs \<Rightarrow> dict_get kvs ''alias'' | _ \<Rightarrow> PNone);
          inherited_alias = (if truthy local_alias then local_alias else nearest_alias);
          inherited_alias_path =
            (if truthy local_alias then Some (KStr path) else nearest_alias_path)
      in case elem_entry R path local_alias m nearest_alias nearest_alias_path of
           Inl e \<Rightarrow> Inl e
         | Inr m1 \<Rightarrow>
             (case (case step of
                      PDict kvs \<Rightarrow>
                        map_items R (Some (path @ ''/'')) kvs m1 inherited_alias inherited_alias_path
                    | _ \<Rightarrow> Inr m1) of
                Inl e \<Rightarrow> Inl e
              | Inr m2 \<Rightarrow> map_elems R base (Suc idx) steps m2 nearest_alias nearest_alias_path))"
| "map_items R pre [] m nearest_alias nearest_alias_path = Inr m"
| "map_items R pre ((key, v) # kvs) m nearest_alias nearest_alias_path =
     (case map_steps R (child_base pre key) v m nearest_alias nearest_alias_path of
        Inl e \<Rightarrow> Inl e
      | Inr m1 \<Rightarrow> map_items R pre kvs m1 nearest_alias nearest_alias_path)"
  by pat_completeness auto

termination
  by (relation "measure (\<lambda>x. case x of
         Inl (R, base, v, m, na, nap) \<Rightarrow> size v
       | Inr (Inl (R, base, idx, steps, m, na, nap)) \<Rightarrow> size_list size steps
       | Inr (Inr (R, pre, kvs, m, na, nap)) \<Rightarrow> size_list (size_prod (\<lambda>x. 0) size) kvs)") auto

text \<open>
  The loop of \<open>load_automation\<close> over the top-level items:
  \<open>if key == 'sequence' or isinstance(value, (list, dict)): map_steps(key, value, mapping)\<close>.
\<close>

fun root_items :: "(pyval \<Rightarrow> string) \<Rightarrow> (pykey \<times> pyval) list \<Rightarrow> mapping \<Rightarrow> error + mapping" where
  "root_items R [] m = Inr m"
| "root_items R ((key, v) # kvs) m =
     (if key = KStr ''sequence'' \<or> is_container v then
        (case map_steps R key v m PNone None of
           Inl e \<Rightarrow> Inl e
         | Inr m1 \<Rightarrow> root_items R kvs m1)
      else root_items R kvs m)"

text \<open>
  \<open>load_automation\<close> after \<open>yaml.safe_load\<close>: \<open>automation.items()\<close> raises
  \<open>AttributeError\<close> unless the loaded document is a dict.
\<close>

definition load_automation_doc :: "(pyval \<Rightarrow> string) \<Rightarrow> pyval \<Rightarrow> error + mapping" where
  "load_automation_doc R automation =
     (case automation of
        PDict kvs \<Rightarrow> root_items R kvs []
      | _ \<Rightarrow> Inl AttributeError)"

section \<open>Trace Normalizer: \<open>process_trace\<close>\<close>

subsection \<open>Library functions\<close>

text \<open>
  The functions of the Python libraries that \<open>process_trace\<close> and \<open>format_output\<close> call are
  parameters, collected in one record. \<open>'dt\<close> is the type of \<open>datetime\<close> objects, \<open>'k\<close> the
  type of the numbers returned by \<open>datetime.timestamp()\<close> (seconds since the epoch, with the
  sub-second part), \<open>'tz\<close> the type of \<open>pytz\<close> time zones.
  \<^item> \<open>py_repr\<close>: \<open>repr\<close> of a list or dict;
  \<^item> \<open>json_load\<close>: \<open>json.load\<close> on the text of a file, \<open>None\<close> when it raises;
  \<^item> \<open>json_dumps\<close>: \<open>json.dumps(value, indent=2, ensure_ascii=False)\<close>;
  \<^item> \<open>fromisoformat\<close>: \<open>datetime.fromisoformat\<close> on a string, \<open>None\<close> when it raises
    \<open>ValueError\<close>;
  \<^item> \<open>timestamp_of\<close>: \<open>datetime.timestamp()\<close>;
  \<^item> \<open>pytz_timezone\<close>: \<open>pytz.timezone\<close>, \<open>None\<close> when the name is unknown;
  \<^item> \<open>strftime_in\<close>: \<open>d.astimezone(tz).strftime('%Y-%m-%d %H:%M:%S.%f %Z')\<close>.
\<close>

record ('dt, 'k, 'tz) pylib =
  py_repr :: "pyval \<Rightarrow> string"
  json_load :: "string \<Rightarrow> pyval option"
  json_dumps :: "pyval \<Rightarrow> string"
  fromisoformat :: "string \<Rightarrow> 'dt option"
  timestamp_of :: "'dt \<Rightarrow> 'k"
  pytz_timezone :: "string \<Rightarrow> 'tz option"
  strftime_in :: "'tz \<Rightarrow> 'dt \<Rightarrow> string"

subsection \<open>Strings\<close>

text \<open>
  \<open>s.replace(old, new)\<close> for a non-empty \<open>old\<close>: scanning from the left, every
  occurrence of \<open>old\<close> that does not overlap an earlier one is replaced. (All call sites
  pass a non-empty literal; for an empty \<open>old\<close> the model returns \<open>s\<close>.)
\<close>

function replace :: "string \<Rightarrow> string \<Rightarrow> string \<Rightarrow> string" where
  "replace old new s =
     (if s = [] \<or> old = [] then s
      else if take (length old) s = old then new @ replace old new (drop (length old) s)
      else hd s # replace old new (tl s))"
  by pat_completeness auto

termination
  by (relation "measure (\<lambda>(old, new, s). length s)") auto

declare replace.simps [simp del]

text \<open>\<open>sub in s\<close> for strings: \<open>sub\<close> occurs in \<open>s\<close> as a contiguous substring.\<close>

fun contains :: "string \<Rightarrow> string \<Rightarrow> bool" where
  "contains sub [] = (sub = [])"
| "contains sub (c # cs) = (take (length sub) (c # cs) = sub \<or> contains sub cs)"

text \<open>\<open>sep.join(xs)\<close>\<close>

fun join :: "string \<Rightarrow> string list \<Rightarrow> string" where
  "join sep [] = []"
| "join sep [x] = x"
| "join sep (x # y # ys) = x @ sep @ join sep (y # ys)"

subsection \<open>Subscripts\<close>

text \<open>
  \<open>v[k]\<close> for a string key and \<open>v[i]\<close> for a non-negative index. A dict raises
  \<open>KeyError\<close> on a missing key (an index is looked up as the integer key); a list or
  string raises \<open>IndexError\<close> out of range and \<open>TypeError\<close> on a string key; \<open>None\<close>,
  booleans and integers are not subscriptable.
\<close>

datatype subscript = Key string | Idx nat

fun getitem :: "pyval \<Rightarrow> subscript \<Rightarrow> error + pyval" where
  "getitem (PDict kvs) (Key k) =
     (case map_of kvs (KStr k) of None \<Rightarrow> Inl KeyError | Some v \<Rightarrow> Inr v)"
| "getitem (PDict kvs) (Idx i) =
     (case py_get kvs (KInt (int i)) of None \<Rightarrow> Inl KeyError | Some v \<Rightarrow> Inr v)"
| "getitem (PList xs) (Idx i) = (if i < length xs then Inr (xs ! i) else Inl IndexError)"
| "getitem (PStr s) (Idx i) = (if i < length s then Inr (PStr [s ! i]) else Inl IndexError)"
| "getitem v sub = Inl TypeError"

text \<open>A chain of subscripts \<open>v[a][b]...\<close>, stopping at the first one that raises.\<close>

fun getitems :: "pyval \<Rightarrow> subscript list \<Rightarrow> error + pyval" where
  "getitems v [] = Inr v"
| "getitems v (sub # subs) =
     (case getitem v sub of Inl e \<Rightarrow> Inl e | Inr w \<Rightarrow> getitems w subs)"

subsection \<open>Collecting and sorting the events\<close>

text \<open>An event that passed the filter is a dict; it is kept as its list of items.\<close>

type_synonym event = "(pykey \<times> pyval) list"

text \<open>
  The body of the loop over \<open>trace_data['trace']['trace'].values()\<close>: a list is taken as
  it is, any other value is wrapped into a one-element list, and only dicts with a
  \<open>path\<close> key are appended.
\<close>

fun events_of :: "pyval \<Rightarrow> event list" where
  "events_of (PDict kvs) = (if map_of kvs (KStr ''path'') \<noteq> None then [kvs] else [])"
| "events_of v = []"

fun entry_events :: "pyval \<Rightarrow> event list" where
  "entry_events (PList evs) = concat (map events_of evs)"
| "entry_events v = events_of v"

definition collect_events :: "(pykey \<times> pyval) list \<Rightarrow> event list" where
  "collect_events table = concat (map (\<lambda>kv. entry_events (snd kv)) table)"

text \<open>
  The sort key
  \<open>datetime.fromisoformat(ev.get('timestamp')).timestamp() if 'timestamp' in ev else 0\<close>.
\<close>

definition sort_key_of :: "('dt, 'k::{linorder,zero}, 'tz) pylib \<Rightarrow> event \<Rightarrow> error + 'k" where
  "sort_key_of L ev =
     (case map_of ev (KStr ''timestamp'') of
        None \<Rightarrow> Inr 0
      | Some (PStr s) \<Rightarrow>
          (case fromisoformat L s of None \<Rightarrow> Inl ValueError | Some d \<Rightarrow> Inr (timestamp_of L d))
      | Some _ \<Rightarrow> Inl TypeError)"

text \<open>
  \<open>event_list.sort(key=...)\<close> computes the key of every element first, in list order (the
  first key that raises ends the call), then sorts by the keys alone. Python's sort is
  stable and ascending; so is \<open>sort_key\<close>, and a stable sort has only one result.
\<close>

fun decorate :: "('dt, 'k::{linorder,zero}, 'tz) pylib \<Rightarrow> event list \<Rightarrow> error + ('k \<times> event) list" where
  "decorate L [] = Inr []"
| "decorate L (ev # evs) =
     (case sort_key_of L ev of
        Inl e \<Rightarrow> Inl e
      | Inr k \<Rightarrow> (case decorate L evs of Inl e \<Rightarrow> Inl e | Inr kes \<Rightarrow> Inr ((k, ev) # kes)))"

definition sort_events :: "('dt, 'k::{linorder,zero}, 'tz) pylib \<Rightarrow> event list \<Rightarrow> error + event list" where
  "sort_events L evs =
     (case decorate L evs of Inl e \<Rightarrow> Inl e | Inr kes \<Rightarrow> Inr (map snd (sort_key fst kes)))"

subsection \<open>Alias resolution\<close>

text \<open>The list \<open>variations\<close> built from the path of an event.\<close>

definition variations :: "string \<Rightarrow> string list" where
  "variations path =
     [replace ''action/'' ''actions/'' path,
      replace ''actions/'' ''action/'' path,
      replace ''condition/'' ''conditions/'' path,
      replace ''conditions/'' ''condition/'' path,
      replace ''trigger/'' ''triggers/'' path,
      replace ''triggers/'' ''trigger/'' path]"

text \<open>
  The loop \<open>for var in variations: if var in alias_mapping: alias = alias_mapping[var]; break\<close>:
  the value stored under the first variation that is a key, if there is one.
\<close>

fun first_variation :: "mapping \<Rightarrow> string list \<Rightarrow> pyval option" where
  "first_variation alias_mapping [] = None"
| "first_variation alias_mapping (var # vars) =
     (case map_of alias_mapping (KStr var) of
        Some a \<Rightarrow> Some a
      | None \<Rightarrow> first_variation alias_mapping vars)"

text \<open>
  Lines 120 to 136 for a path that is a string: \<open>alias_mapping.get(path)\<close>, then the
  variations when that value is missing or falsy, then the path itself when the alias is
  still missing or falsy.
\<close>

definition resolve_alias :: "mapping \<Rightarrow> string \<Rightarrow> pyval" where
  "resolve_alias alias_mapping path =
     (let alias = dict_get alias_mapping path in
      if truthy alias then alias
      else (case first_variation alias_mapping (variations path) of
              Some a \<Rightarrow> if truthy a then a else PStr path
            | None \<Rightarrow> PStr path))"

subsection \<open>Display records\<close>

text \<open>
  The dict \<open>line\<close>; the key \<open>error\<close> is present only when the event has a truthy error.
  The list \<open>output\<close> holds such dicts and marker strings.
\<close>

record display =
  line_timestamp :: string
  line_alias :: pyval
  line_path :: string
  line_data :: "(string \<times> pyval) list"
  line_error :: "pyval option"

datatype entry = Marker string | Line display

text \<open>
  \<open>datetime.fromisoformat(ev['timestamp']).astimezone(tz)\<close>, rendered by the \<open>strftime\<close>
  of line 145: \<open>KeyError\<close> when the event has no timestamp.
\<close>

definition event_time :: "('dt, 'k, 'tz) pylib \<Rightarrow> 'tz \<Rightarrow> event \<Rightarrow> error + string" where
  "event_time L tz ev =
     (case map_of ev (KStr ''timestamp'') of
        None \<Rightarrow> Inl KeyError
      | Some (PStr s) \<Rightarrow>
          (case fromisoformat L s of None \<Rightarrow> Inl ValueError | Some d \<Rightarrow> Inr (strftime_in L tz d))
      | Some _ \<Rightarrow> Inl TypeError)"

text \<open>The data bag: \<open>changed_variables\<close> when the key is present, \<open>result\<close> when truthy.\<close>

definition event_data :: "event \<Rightarrow> (string \<times> pyval) list" where
  "event_data ev =
     (case map_of ev (KStr ''changed_variables'') of
        None \<Rightarrow> []
      | Some v \<Rightarrow> [(''changed_variables'', v)])
     @ (let result = (case map_of ev (KStr ''result'') of None \<Rightarrow> PDict [] | Some r \<Rightarrow> r)
        in if truthy result then [(''result'', result)] else [])"

text \<open>
  The exception for a path that is not a string. A list or a dict is unhashable, and
  \<open>alias_mapping.get\<close> raises \<open>TypeError\<close>. For any other path, when the mapping holds
  nothing truthy under it \<open>path.replace\<close> raises \<open>AttributeError\<close>; otherwise the
  test \<open>'repeat' in path\<close> raises \<open>TypeError\<close>.
\<close>

definition bad_path_error :: "mapping \<Rightarrow> pyval \<Rightarrow> error" where
  "bad_path_error alias_mapping path =
     (case key_of path of
        None \<Rightarrow> TypeError
      | Some k \<Rightarrow>
          (case py_get alias_mapping k of
             None \<Rightarrow> AttributeError
           | Some alias \<Rightarrow> if truthy alias then TypeError else AttributeError))"

text \<open>One pass of the loop body without the iteration marker.\<close>

definition build_line :: "('dt, 'k, 'tz) pylib \<Rightarrow> 'tz \<Rightarrow> mapping \<Rightarrow> event \<Rightarrow> error + display" where
  "build_line L tz alias_mapping ev =
     (case event_time L tz ev of
        Inl e \<Rightarrow> Inl e
      | Inr ts \<Rightarrow>
          (case dict_get ev ''path'' of
             PStr path \<Rightarrow>
               Inr \<lparr>line_timestamp = ts,
                    line_alias = resolve_alias alias_mapping path,
                    line_path = path,
                    line_data = event_data ev,
                    line_error = (let error = dict_get ev ''error''
                                  in if truthy error then Some error else None)\<rparr>
           | path \<Rightarrow> Inl (bad_path_error alias_mapping path)))"

text \<open>\<open>f"\n[ITERATION {current_iteration}]"\<close>\<close>

definition iteration_marker :: "nat \<Rightarrow> string" where
  "iteration_marker current_iteration =
     CHR 0x0A # ''[ITERATION '' @ str_nat current_iteration @ '']''"

text \<open>
  The loop \<open>for ev in event_list\<close>, with the counter \<open>current_iteration\<close> as it is before
  the event. The result lists what the loop appends to \<open>output\<close> from this event on; an
  exception ends the call and the output built so far is lost.
\<close>

fun process_events ::
  "('dt, 'k, 'tz) pylib \<Rightarrow> 'tz \<Rightarrow> mapping \<Rightarrow> nat \<Rightarrow> event list \<Rightarrow> error + entry list" where
  "process_events L tz alias_mapping current_iteration [] = Inr []"
| "process_events L tz alias_mapping current_iteration (ev # evs) =
     (case build_line L tz alias_mapping ev of
        Inl e \<Rightarrow> Inl e
      | Inr line \<Rightarrow>
          if contains ''repeat'' (line_path line) then
            (case process_events L tz alias_mapping (Suc current_iteration) evs of
               Inl e \<Rightarrow> Inl e
             | Inr out \<Rightarrow>
                 Inr (Marker (iteration_marker (Suc current_iteration)) # Line line # out))
          else
            (case process_events L tz alias_mapping current_iteration evs of
               Inl e \<Rightarrow> Inl e
             | Inr out \<Rightarrow> Inr (Line line # out)))"

subsection \<open>\<open>format_output\<close>\<close>

definition format_detail :: "('dt, 'k, 'tz) pylib \<Rightarrow> string \<times> pyval \<Rightarrow> string" where
  "format_detail L kv =
     fst kv @ '': '' @
     (case snd kv of
        PDict d \<Rightarrow> json_dumps L (snd kv)
      | _ \<Rightarrow> py_str (py_repr L) (snd kv))"

definition format_entry :: "('dt, 'k, 'tz) pylib \<Rightarrow> entry \<Rightarrow> string" where
  "format_entry L entry =
     (case entry of
        Marker s \<Rightarrow> s
      | Line d \<Rightarrow>
          line_timestamp d @ '' | '' @ py_str (py_repr L) (line_alias d) @ '' | '' @ line_path d
          @ (if line_data d \<noteq> []
             then CHR 0x0A # ''  '' @ join (CHR 0x0A # ''  '') (map (format_detail L) (line_data d))
             else [])
          @ (case line_error d of
               None \<Rightarrow> []
             | Some e \<Rightarrow> CHR 0x0A # ''  [ERROR] '' @ py_str (py_repr L) e))"

definition format_output :: "('dt, 'k, 'tz) pylib \<Rightarrow> entry list \<Rightarrow> string list" where
  "format_output L processed_data = map (format_entry L) processed_data"

subsection \<open>\<open>process_trace\<close>\<close>

text \<open>
  What a call can read and write: the dict object passed as \<open>alias_mapping\<close>, which the
  caller keeps and may pass again, and the text files by name (\<open>None\<close>: no such file).
\<close>

record world =
  alias_mapping_obj :: mapping
  files :: "string \<Rightarrow> string option"

text \<open>
  From the loaded trace document to the list \<open>output\<close>: the event table
  \<open>trace_data['trace']['trace']\<close>, whose \<open>values()\<close> needs a dict, then collecting,
  sorting and the loop with \<open>current_iteration = 0\<close>.
\<close>

definition normalize_trace ::
  "('dt, 'k::{linorder,zero}, 'tz) pylib \<Rightarrow> 'tz \<Rightarrow> mapping \<Rightarrow> pyval \<Rightarrow> error + entry list" where
  "normalize_trace L tz alias_mapping trace_data =
     (case getitems trace_data [Key ''trace'', Key ''trace''] of
        Inl e \<Rightarrow> Inl e
      | Inr (PDict table) \<Rightarrow>
          (case sort_events L (collect_events table) of
             Inl e \<Rightarrow> Inl e
           | Inr event_list \<Rightarrow> process_events L tz alias_mapping 0 event_list)
      | Inr _ \<Rightarrow> Inl AttributeError)"

text \<open>\<open>open(output_file, 'a').write(text)\<close>: the file is created when it does not exist.\<close>

definition append_file :: "string \<Rightarrow> string \<Rightarrow> (string \<Rightarrow> string option) \<Rightarrow> (string \<Rightarrow> string option)" where
  "append_file name text fs =
     fs(name \<mapsto> (case fs name of None \<Rightarrow> [] | Some old \<Rightarrow> old) @ text)"

text \<open>
  \<open>process_trace(trace_file, alias_mapping, output_file=None, timezone=None)\<close>. The time
  zone is looked up first, then the trace file is opened and parsed. \<open>output_file\<close> and
  \<open>timezone\<close> are \<open>None\<close> or a string, and the empty string is falsy. The result is the
  returned list or the exception, and the world after the call.
\<close>

definition process_trace ::
  "('dt, 'k::{linorder,zero}, 'tz) pylib \<Rightarrow> string \<Rightarrow> string option \<Rightarrow> string option \<Rightarrow> world
     \<Rightarrow> (error + entry list) \<times> world" where
  "process_trace L trace_file output_file timezone w =
     (case pytz_timezone L (case timezone of
                              None \<Rightarrow> ''UTC''
                            | Some z \<Rightarrow> if z \<noteq> [] then z else ''UTC'') of
        None \<Rightarrow> (Inl UnknownTimeZoneError, w)
      | Some tz \<Rightarrow>
          (case files w trace_file of
             None \<Rightarrow> (Inl FileNotFoundError, w)
           | Some text \<Rightarrow>
               (case json_load L text of
                  None \<Rightarrow> (Inl ValueError, w)
                | Some trace_data \<Rightarrow>
                    (case normalize_trace L tz (alias_mapping_obj w) trace_data of
                       Inl e \<Rightarrow> (Inl e, w)
                     | Inr output \<Rightarrow>
                         (case output_file of
                            None \<Rightarrow> (Inr output, w)
                          | Some name \<Rightarrow>
                              if name \<noteq> [] then
                                (Inr output,
                                 w\<lparr>files := append_file name
                                     (join [CHR 0x0A] (format_output L output)) (files w)\<rparr>)
                              else (Inr output, w))))))"

section \<open>The alias check of \<open>main\<close>\<close>

text \<open>
  \<open>a == b\<close> on loaded values: a boolean equals the integer 0 or 1 it stands for, lists
  are compared element by element, dicts have the same number of keys and equal values
  under each key; values of different kinds are unequal.
\<close>

function py_eq :: "pyval \<Rightarrow> pyval \<Rightarrow> bool"
and py_eq_list :: "pyval list \<Rightarrow> pyval list \<Rightarrow> bool"
and py_eq_items :: "(pykey \<times> pyval) list \<Rightarrow> (pykey \<times> pyval) list \<Rightarrow> bool"
where
  "py_eq PNone b = (b = PNone)"
| "py_eq (PBool x) b =
     (case b of PBool y \<Rightarrow> x = y | PInt j \<Rightarrow> (if x then 1 else 0) = j | _ \<Rightarrow> False)"
| "py_eq (PInt i) b =
     (case b of PBool y \<Rightarrow> i = (if y then 1 else 0) | PInt j \<Rightarrow> i = j | _ \<Rightarrow> False)"
| "py_eq (PStr s) b = (b = PStr s)"
| "py_eq (PList xs) b = (case b of PList ys \<Rightarrow> py_eq_list xs ys | _ \<Rightarrow> False)"
| "py_eq (PDict kvs) b =
     (case b of PDict kvs' \<Rightarrow> length kvs = length kvs' \<and> py_eq_items kvs kvs' | _ \<Rightarrow> False)"
| "py_eq_list [] ys = (ys = [])"
| "py_eq_list (x # xs) ys = (case ys of [] \<Rightarrow> False | y # ys' \<Rightarrow> py_eq x y \<and> py_eq_list xs ys')"
| "py_eq_items [] kvs' = True"
| "py_eq_items ((k, v) # kvs) kvs' =
     ((case py_get kvs' k of None \<Rightarrow> False | Some v' \<Rightarrow> py_eq v v') \<and> py_eq_items kvs kvs')"
  by pat_completeness auto

termination
  by (relation "measure (\<lambda>x. case x of
         Inl (a, b) \<Rightarrow> size a
       | Inr (Inl (xs, ys)) \<Rightarrow> size_list size xs
       | Inr (Inr (kvs, kvs')) \<Rightarrow> size_list (size_prod (\<lambda>x. 0) size) kvs)") auto

text \<open>
  The \<open>try\<close> block of \<open>main\<close>:
  \<open>trace_data['trace']['trace']['trigger/0'][0]\<close>, then
  \<open>trigger0['changed_variables']['this']['attributes']['friendly_name']\<close>.
\<close>

definition friendly_name_lookup :: "pyval \<Rightarrow> error + pyval" where
  "friendly_name_lookup trace_data =
     (case getitems trace_data [Key ''trace'', Key ''trace'', Key ''trigger/0'', Idx 0] of
        Inl e \<Rightarrow> Inl e
      | Inr trigger0 \<Rightarrow>
          getitems trigger0
            [Key ''changed_variables'', Key ''this'', Key ''attributes'', Key ''friendly_name''])"

text \<open>\<open>friendly_name\<close> after \<open>except Exception: pass\<close>: it keeps its initial \<open>None\<close>.\<close>

definition friendly_name_of :: "pyval \<Rightarrow> pyval" where
  "friendly_name_of trace_data =
     (case friendly_name_lookup trace_data of Inl e \<Rightarrow> PNone | Inr v \<Rightarrow> v)"

text \<open>The text of the alert, an f-string over \<open>main_alias\<close> and \<open>friendly_name\<close>.\<close>

definition alert_text :: "(pyval \<Rightarrow> string) \<Rightarrow> pyval \<Rightarrow> pyval \<Rightarrow> string" where
  "alert_text R main_alias friendly_name =
     ''[ALERT] The main alias from YAML ('' @ [CHR 0x27] @ py_str R main_alias @ [CHR 0x27]
     @ '') is different from the friendly_name in the trace ('' @ [CHR 0x27]
     @ py_str R friendly_name @ [CHR 0x27]
     @ ''). Make sure the trace matches the provided YAML.'' @ [CHR 0x0A]"

text \<open>
  The variable \<open>alert_name\<close> of \<open>main\<close>, from the loaded trace and the loaded definition:
  \<open>automation_yaml.get('alias')\<close> needs a dict. The empty string means no alert.
\<close>

definition alert_name :: "(pyval \<Rightarrow> string) \<Rightarrow> pyval \<Rightarrow> pyval \<Rightarrow> error + string" where
  "alert_name R trace_data automation_yaml =
     (case automation_yaml of
        PDict kvs \<Rightarrow>
          (let friendly_name = friendly_name_of trace_data;
               main_alias = dict_get kvs ''alias''
           in if \<not> truthy friendly_name \<or> \<not> truthy main_alias \<or> \<not> py_eq friendly_name main_alias
              then Inr (alert_text R main_alias friendly_name)
              else Inr [])
      | _ \<Rightarrow> Inl AttributeError)"

section \<open>The function \<open>main\<close>\<close>

text \<open>
  What \<open>main\<close> needs beyond the library record of \<open>process_trace\<close>:
  \<^item> \<open>yaml_safe_load\<close>: \<open>yaml.safe_load\<close> on the text of a file, \<open>None\<close> when it raises;
  \<^item> \<open>pformat\<close>: \<open>pprint.pformat(v, sort_dicts=False, width=120)\<close>;
  \<^item> \<open>local_zone\<close>: \<open>str(tzlocal.get_localzone())\<close>, \<open>None\<close> when it raises;
  \<^item> \<open>colorama_installed\<close>, \<open>rich_installed\<close>: whether the optional packages can be
    imported.
\<close>

record main_env =
  yaml_safe_load :: "string \<Rightarrow> pyval option"
  pformat :: "pyval \<Rightarrow> string"
  local_zone :: "string option"
  colorama_installed :: bool
  rich_installed :: bool

text \<open>The parsed command line: \<open>args.yaml_file\<close>, \<open>args.trace_log\<close>, \<open>args.output\<close>, \<open>args.timezone\<close>.\<close>

record args =
  arg_yaml_file :: string
  arg_trace_log :: string
  arg_output :: "string option"
  arg_timezone :: "string option"

text \<open>
  One call that writes to the screen: \<open>print(s)\<close>, \<open>rich_print(s)\<close> for a string with
  markup, or \<open>rich_print(v)\<close> for a loaded value.
\<close>

datatype printed = Print string | RichPrint string | RichPrintValue pyval

text \<open>What a run of \<open>main\<close> reads and writes: the screen so far and the text files by name.\<close>

record session =
  stdout :: "printed list"
  disk :: "string \<Rightarrow> string option"

text \<open>The constants \<open>Fore.RED\<close>, \<open>Fore.CYAN\<close> and \<open>Style.RESET_ALL\<close> of colorama.\<close>

definition Fore_RED :: string where
  "Fore_RED = CHR 0x1B # ''[31m''"

definition Fore_CYAN :: string where
  "Fore_CYAN = CHR 0x1B # ''[36m''"

definition Style_RESET_ALL :: string where
  "Style_RESET_ALL = CHR 0x1B # ''[0m''"

text \<open>\<open>get_timezone(cli_timezone)\<close>\<close>

definition get_timezone :: "main_env \<Rightarrow> string option \<Rightarrow> string" where
  "get_timezone E cli_timezone =
     (let fallback = (case local_zone E of None \<Rightarrow> ''UTC'' | Some z \<Rightarrow> z)
      in case cli_timezone of
           None \<Rightarrow> fallback
         | Some z \<Rightarrow> if z \<noteq> [] then z else fallback)"

text \<open>\<open>load_automation(yaml_file)\<close>: the file is opened and loaded, then walked.\<close>

definition load_automation ::
  "main_env \<Rightarrow> (pyval \<Rightarrow> string) \<Rightarrow> string \<Rightarrow> (string \<Rightarrow> string option) \<Rightarrow> error + mapping" where
  "load_automation E R name fs =
     (case fs name of
        None \<Rightarrow> Inl FileNotFoundError
      | Some text \<Rightarrow>
          (case yaml_safe_load E text of
             None \<Rightarrow> Inl YAMLError
           | Some automation \<Rightarrow> load_automation_doc R automation))"

text \<open>The f-string \<open>params_summary\<close>.\<close>

definition params_summary :: "args \<Rightarrow> string \<Rightarrow> string" where
  "params_summary a tz =
     ''[PARAMETERS] yaml_file='' @ arg_yaml_file a @ '' | trace_log='' @ arg_trace_log a
     @ '' | output='' @ (case arg_output a of
                           None \<Rightarrow> ''[stdout]''
                         | Some name \<Rightarrow> if name \<noteq> [] then name else ''[stdout]'')
     @ '' | timezone='' @ tz @ [CHR 0x0A]"

text \<open>The string \<open>output_structure\<close>, which goes to the output file.\<close>

definition output_structure :: "string \<Rightarrow> string \<Rightarrow> string \<Rightarrow> string \<Rightarrow> string" where
  "output_structure summary alert yaml_structure mapping_structure =
     summary @ alert
     @ CHR 0x0A # ''[LOADED YAML - FULL STRUCTURE]'' @ [CHR 0x0A] @ yaml_structure
     @ [CHR 0x0A, CHR 0x0A] @ ''[IDENTIFIED ALIAS MAPPING]'' @ [CHR 0x0A] @ mapping_structure"

text \<open>
  Lines 251 to 274, the header on the screen when there is no output file: what is
  printed, and the exception that ends it, if any. \<open>use_rich\<close> is true when both imports
  of the \<open>try\<close> block succeed. When the import of colorama fails, \<open>except ImportError\<close>
  goes on with \<open>use_rich = False\<close> and the names \<open>Fore\<close> and \<open>Style\<close> are never bound: the
  \<open>print\<close> of a non-empty alert at line 270 then raises \<open>UnboundLocalError\<close>.
\<close>

definition screen_header ::
  "main_env \<Rightarrow> string \<Rightarrow> string \<Rightarrow> pyval \<Rightarrow> mapping \<Rightarrow> string \<Rightarrow> string
     \<Rightarrow> printed list \<times> error option" where
  "screen_header E summary alert automation_yaml mapping yaml_structure mapping_structure =
     (if colorama_installed E \<and> rich_installed E then
        ([RichPrint (''[bold cyan]'' @ summary @ ''[/bold cyan]'')]
         @ (if alert \<noteq> [] then [RichPrint (''[bold red]'' @ alert @ ''[/bold red]'')] else [])
         @ [RichPrint ''[bold yellow][LOADED YAML - FULL STRUCTURE][/bold yellow]'',
            RichPrintValue automation_yaml,
            RichPrint (CHR 0x0A # ''[bold yellow][IDENTIFIED ALIAS MAPPING][/bold yellow]''),
            RichPrintValue (PDict mapping)],
         None)
      else if alert \<noteq> [] \<and> \<not> colorama_installed E then
        ([Print summary], Some UnboundLocalError)
      else
        ([Print summary]
         @ (if alert \<noteq> [] then [Print (Fore_RED @ alert @ Style_RESET_ALL)] else [])
         @ [Print ''[LOADED YAML - FULL STRUCTURE]'',
            Print yaml_structure,
            Print (CHR 0x0A # ''[IDENTIFIED ALIAS MAPPING]''),
            Print mapping_structure],
         None))"

text \<open>
  Lines 284 to 296, the formatted output on the screen: coloured line by line with
  colorama, and joined into one \<open>print\<close> when the import fails.
\<close>

definition screen_line :: "string \<Rightarrow> printed" where
  "screen_line line =
     (if contains ''[ERROR]'' line then Print (Fore_RED @ line @ Style_RESET_ALL)
      else if contains ''[ITERATION'' line then Print (Fore_CYAN @ line @ Style_RESET_ALL)
      else Print line)"

definition screen_output :: "main_env \<Rightarrow> string list \<Rightarrow> printed list" where
  "screen_output E formatted_output =
     (if colorama_installed E then map screen_line formatted_output
      else [Print (join [CHR 0x0A] formatted_output)])"

text \<open>
  The branch of \<open>main\<close> without an output file: the header on the screen, then
  \<open>process_trace\<close> without a destination, then the formatted output on the screen.
\<close>

definition main_screen ::
  "('dt, 'k::{linorder,zero}, 'tz) pylib \<Rightarrow> main_env \<Rightarrow> args \<Rightarrow> session \<Rightarrow> string \<Rightarrow> string
     \<Rightarrow> pyval \<Rightarrow> mapping \<Rightarrow> (error + unit) \<times> session" where
  "main_screen L E a s tz alert automation_yaml mapping =
     (case screen_header E (params_summary a tz) alert automation_yaml mapping
             (pformat E automation_yaml) (pformat E (PDict mapping)) of
        (items, Some e) \<Rightarrow> (Inl e, s\<lparr>stdout := stdout s @ items\<rparr>)
      | (items, None) \<Rightarrow>
          (case process_trace L (arg_trace_log a) None (Some tz)
                  \<lparr>alias_mapping_obj = mapping, files = disk s\<rparr> of
             (Inl e, w) \<Rightarrow> (Inl e, s\<lparr>stdout := stdout s @ items, disk := files w\<rparr>)
           | (Inr data, w) \<Rightarrow>
               (Inr (),
                s\<lparr>stdout := stdout s @ items @ screen_output E (format_output L data),
                  disk := files w\<rparr>)))"

text \<open>
  The branch of \<open>main\<close> with an output file: the header replaces the content of the
  file (mode \<open>'w'\<close>), one line goes to the screen, and \<open>process_trace\<close> appends to the
  file.
\<close>

definition main_file ::
  "('dt, 'k::{linorder,zero}, 'tz) pylib \<Rightarrow> main_env \<Rightarrow> args \<Rightarrow> session \<Rightarrow> string \<Rightarrow> string
     \<Rightarrow> pyval \<Rightarrow> mapping \<Rightarrow> string \<Rightarrow> (error + unit) \<times> session" where
  "main_file L E a s tz alert automation_yaml mapping name =
     (let header = output_structure (params_summary a tz) alert
                     (pformat E automation_yaml) (pformat E (PDict mapping))
                   @ [CHR 0x0A, CHR 0x0A];
          notice = CHR 0x0A #
            ''[YAML and mapping loaded. Output will be saved to file, not displayed on screen.]''
      in case process_trace L (arg_trace_log a) (Some name) (Some tz)
                \<lparr>alias_mapping_obj = mapping, files = (disk s)(name \<mapsto> header)\<rparr> of
           (Inl e, w) \<Rightarrow> (Inl e, s\<lparr>stdout := stdout s @ [Print notice], disk := files w\<rparr>)
         | (Inr data, w) \<Rightarrow> (Inr (), s\<lparr>stdout := stdout s @ [Print notice], disk := files w\<rparr>))"

text \<open>
  \<open>main\<close> after \<open>parser.parse_args()\<close>: the mapping, the definition loaded once more, the
  trace, the alert, then one of the two branches. The result is the exception that
  ends the run, if any, and the session after it: what was printed before an exception
  stays printed, and what was written stays written.
\<close>

definition main ::
  "('dt, 'k::{linorder,zero}, 'tz) pylib \<Rightarrow> main_env \<Rightarrow> args \<Rightarrow> session
     \<Rightarrow> (error + unit) \<times> session" where
  "main L E a s =
     (let tz = get_timezone E (arg_timezone a)
      in case load_automation E (py_repr L) (arg_yaml_file a) (disk s) of
           Inl e \<Rightarrow> (Inl e, s)
         | Inr mapping \<Rightarrow>
             (case disk s (arg_yaml_file a) of
                None \<Rightarrow> (Inl FileNotFoundError, s)
              | Some yaml_text \<Rightarrow>
                  (case yaml_safe_load E yaml_text of
                     None \<Rightarrow> (Inl YAMLError, s)
                   | Some automation_yaml \<Rightarrow>
                       (case disk s (arg_trace_log a) of
                          None \<Rightarrow> (Inl FileNotFoundError, s)
                        | Some trace_text \<Rightarrow>
                            (case json_load L trace_text of
                               None \<Rightarrow> (Inl ValueError, s)
                             | Some trace_data \<Rightarrow>
                                 (case alert_name (py_repr L) trace_data automation_yaml of
                                    Inl e \<Rightarrow> (Inl e, s)
                                  | Inr alert \<Rightarrow>
                                      (case arg_output a of
                                         None \<Rightarrow>
                                           main_screen L E a s tz alert automation_yaml mapping
                                       | Some name \<Rightarrow>
                                           if name \<noteq> [] then
                                             main_file L E a s tz alert automation_yaml mapping name
                                           else
                                             main_screen L E a s tz alert automation_yaml
                                               mapping)))))))"

section \<open>Notions used in the statements\<close>

subsection \<open>Definitions without aliases\<close>

text \<open>No dict of the document, at any depth, has a key \<open>alias\<close>.\<close>

fun no_alias :: "pyval \<Rightarrow> bool"
and no_alias_list :: "pyval list \<Rightarrow> bool"
and no_alias_items :: "(pykey \<times> pyval) list \<Rightarrow> bool"
where
  "no_alias (PList xs) = no_alias_list xs"
| "no_alias (PDict kvs) = no_alias_items kvs"
| "no_alias PNone = True"
| "no_alias (PBool b) = True"
| "no_alias (PInt i) = True"
| "no_alias (PStr s) = True"
| "no_alias_list [] = True"
| "no_alias_list (x # xs) = (no_alias x \<and> no_alias_list xs)"
| "no_alias_items [] = True"
| "no_alias_items ((k, v) # kvs) = (k \<noteq> KStr ''alias'' \<and> no_alias v \<and> no_alias_items kvs)"

text \<open>Every entry of the mapping has its own path as label.\<close>

definition identity_labels :: "mapping \<Rightarrow> bool" where
  "identity_labels m = list_all (\<lambda>kv. snd kv = key_val (fst kv)) m"

text \<open>Every label of the mapping is truthy.\<close>

definition labels_truthy :: "mapping \<Rightarrow> bool" where
  "labels_truthy m = list_all (\<lambda>kv. truthy (snd kv)) m"

subsection \<open>Display records and markers by position\<close>

text \<open>The display records of a list of events, or the exception of the first event that has one.\<close>

fun build_lines :: "('dt, 'k, 'tz) pylib \<Rightarrow> 'tz \<Rightarrow> mapping \<Rightarrow> event list \<Rightarrow> error + display list" where
  "build_lines L tz alias_mapping [] = Inr []"
| "build_lines L tz alias_mapping (ev # evs) =
     (case build_line L tz alias_mapping ev of
        Inl e \<Rightarrow> Inl e
      | Inr line \<Rightarrow>
          (case build_lines L tz alias_mapping evs of
             Inl e \<Rightarrow> Inl e
           | Inr lines \<Rightarrow> Inr (line # lines)))"

definition is_repeat :: "display \<Rightarrow> bool" where
  "is_repeat d = contains ''repeat'' (line_path d)"

text \<open>
  What the output holds for the record at position \<open>i\<close> when the counter starts at \<open>n\<close>:
  for a record with a repeat path, a marker numbered \<open>n\<close> plus the count of the records
  with a repeat path up to and including this one, then the record itself.
\<close>

definition entries_at :: "nat \<Rightarrow> display list \<Rightarrow> nat \<Rightarrow> entry list" where
  "entries_at n lines i =
     (if is_repeat (lines ! i)
      then [Marker (iteration_marker (n + length (filter is_repeat (take (Suc i) lines))))]
      else [])
     @ [Line (lines ! i)]"

definition with_markers :: "nat \<Rightarrow> display list \<Rightarrow> entry list" where
  "with_markers n lines = concat (map (entries_at n lines) [0..<length lines])"

subsection \<open>Alias resolution as the specification words it\<close>

text \<open>
  The specification describes each of the six substitutions as a replacement of the
  first matching substring only. \<open>replace_first\<close> and \<open>resolve_alias_first_only\<close> follow
  that wording, for comparison with \<open>replace\<close> and \<open>resolve_alias\<close>.
\<close>

fun replace_first :: "string \<Rightarrow> string \<Rightarrow> string \<Rightarrow> string" where
  "replace_first old new [] = []"
| "replace_first old new (c # cs) =
     (if take (length old) (c # cs) = old then new @ drop (length old) (c # cs)
      else c # replace_first old new cs)"

definition variations_first_only :: "string \<Rightarrow> string list" where
  "variations_first_only path =
     [replace_first ''action/'' ''actions/'' path,
      replace_first ''actions/'' ''action/'' path,
      replace_first ''condition/'' ''conditions/'' path,
      replace_first ''conditions/'' ''condition/'' path,
      replace_first ''trigger/'' ''triggers/'' path,
      replace_first ''triggers/'' ''trigger/'' path]"

definition resolve_alias_first_only :: "mapping \<Rightarrow> string \<Rightarrow> pyval" where
  "resolve_alias_first_only alias_mapping path =
     (case map_of alias_mapping (KStr path) of
        Some a \<Rightarrow> a
      | None \<Rightarrow>
          (case first_variation alias_mapping (variations_first_only path) of
             Some a \<Rightarrow> a
           | None \<Rightarrow> PStr path))"

subsection \<open>Results of the walk\<close>

text \<open>The walk returns a mapping with the property \<open>P\<close>.\<close>

definition returns :: "(mapping \<Rightarrow> bool) \<Rightarrow> error + mapping \<Rightarrow> bool" where
  "returns P r = (case r of Inl e \<Rightarrow> False | Inr m \<Rightarrow> P m)"

text \<open>The walk raises, or returns a mapping with the property \<open>P\<close>.\<close>

definition on_return :: "(mapping \<Rightarrow> bool) \<Rightarrow> error + mapping \<Rightarrow> bool" where
  "on_return P r = (case r of Inl e \<Rightarrow> True | Inr m \<Rightarrow> P m)"

subsection \<open>Definitions with string keys\<close>




section \<open>Example data\<close>

text \<open>
  An instance of the library record that covers the strings of the examples below:
  three timestamps, the zone \<open>UTC\<close> and one trace file. A \<open>datetime\<close> is its number of
  microseconds since the epoch, and \<open>timestamp()\<close> is that number (Python returns it in
  seconds, as a float). The examples hold no list or dict that is printed.
\<close>

definition T0 :: string where "T0 = ''2024-05-01T10:00:00.000000+00:00''"
definition T1 :: string where "T1 = ''2024-05-01T10:00:00.250000+00:00''"
definition T2 :: string where "T2 = ''2024-05-01T10:00:01.000000+00:00''"

definition example_fromisoformat :: "string \<Rightarrow> int option" where
  "example_fromisoformat s =
     (if s = T0 then Some 1714557600000000
      else if s = T1 then Some 1714557600250000
      else if s = T2 then Some 1714557601000000
      else None)"

definition example_strftime :: "unit \<Rightarrow> int \<Rightarrow> string" where
  "example_strftime tz d =
     (if d = 1714557600000000 then ''2024-05-01 10:00:00.000000 UTC''
      else if d = 1714557600250000 then ''2024-05-01 10:00:00.250000 UTC''
      else if d = 1714557601000000 then ''2024-05-01 10:00:01.000000 UTC''
      else [])"

definition example_event :: "string \<Rightarrow> string \<Rightarrow> pyval" where
  "example_event path ts = PDict [(KStr ''path'', PStr path), (KStr ''timestamp'', PStr ts)]"

text \<open>
  A trace whose event table holds, under one path key, a list of two events with the
  timestamps \<open>T2\<close> and \<open>T0\<close> and, under another, a single event with the timestamp \<open>T1\<close>.
\<close>

definition example_trace :: pyval where
  "example_trace =
     PDict [(KStr ''trace'', PDict [(KStr ''trace'', PDict
       [(KStr ''action/0/repeat/sequence/0'',
           PList [example_event ''action/0/repeat/sequence/0'' T2,
                  example_event ''action/0/repeat/sequence/0'' T0]),
        (KStr ''action/1'', example_event ''action/1'' T1)])])]"

definition example_trace_text :: string where
  \<open>example_trace_text =
     ''{"trace": {"trace": {"action/0/repeat/sequence/0": ''
     @ ''[{"path": "action/0/repeat/sequence/0", "timestamp": "2024-05-01T10:00:01.000000+00:00"}, ''
     @ ''{"path": "action/0/repeat/sequence/0", "timestamp": "2024-05-01T10:00:00.000000+00:00"}], ''
     @ ''"action/1": {"path": "action/1", "timestamp": "2024-05-01T10:00:00.250000+00:00"}}}}''\<close>

text \<open>The same trace with one more event, which has no timestamp.\<close>

definition example_trace_untimed :: pyval where
  "example_trace_untimed =
     PDict [(KStr ''trace'', PDict [(KStr ''trace'', PDict
       [(KStr ''action/0/repeat/sequence/0'',
           PList [example_event ''action/0/repeat/sequence/0'' T2,
                  example_event ''action/0/repeat/sequence/0'' T0]),
        (KStr ''action/1'', example_event ''action/1'' T1),
        (KStr ''action/2'', PDict [(KStr ''path'', PStr ''action/2'')])])])]"

definition example_json_load :: "string \<Rightarrow> pyval option" where
  "example_json_load text = (if text = example_trace_text then Some example_trace else None)"

definition example_lib :: "(int, int, unit) pylib" where
  "example_lib =
     \<lparr>py_repr = (\<lambda>v. []),
      json_load = example_json_load,
      json_dumps = (\<lambda>v. []),
      fromisoformat = example_fromisoformat,
      timestamp_of = (\<lambda>d. d),
      pytz_timezone = (\<lambda>name. if name = ''UTC'' then Some () else None),
      strftime_in = example_strftime\<rparr>"

definition example_world :: world where
  "example_world =
     \<lparr>alias_mapping_obj = [(KStr ''actions/1'', PStr ''Turn on light'')],
      files = (\<lambda>name. if name = ''trace.json'' then Some example_trace_text else None)\<rparr>"

text \<open>
  A definition with the main alias \<open>Porch light\<close> and no steps, and a session that holds
  it and the example trace as files, for a run without the optional packages.
\<close>

definition example_yaml_text :: string where
  "example_yaml_text = ''alias: Porch light'' @ [CHR 0x0A] @ ''action: []''"

definition example_automation :: pyval where
  "example_automation = PDict [(KStr ''alias'', PStr ''Porch light''), (KStr ''action'', PList [])]"

definition example_env :: main_env where
  "example_env =
     \<lparr>yaml_safe_load = (\<lambda>text. if text = example_yaml_text then Some example_automation else None),
      pformat = (\<lambda>v. []),
      local_zone = None,
      colorama_installed = False,
      rich_installed = False\<rparr>"

definition example_session :: session where
  "example_session =
     \<lparr>stdout = [],
      disk = (\<lambda>name. if name = ''trace.json'' then Some example_trace_text
                     else if name = ''automation.yaml'' then Some example_yaml_text
                     else None)\<rparr>"

definition example_args :: args where
  "example_args =
     \<lparr>arg_yaml_file = ''automation.yaml'', arg_trace_log = ''trace.json'',
      arg_output = None, arg_timezone = None\<rparr>"

text \<open>The output for \<open>example_trace\<close> and \<open>example_world\<close>, and its formatted text.\<close>

definition example_output :: "entry list" where
  "example_output =
     [Marker (CHR 0x0A # ''[ITERATION 1]''),
      Line \<lparr>line_timestamp = ''2024-05-01 10:00:00.000000 UTC'',
            line_alias = PStr ''action/0/repeat/sequence/0'',
            line_path = ''action/0/repeat/sequence/0'', line_data = [], line_error = None\<rparr>,
      Line \<lparr>line_timestamp = ''2024-05-01 10:00:00.250000 UTC'',
            line_alias = PStr ''Turn on light'',
            line_path = ''action/1'', line_data = [], line_error = None\<rparr>,
      Marker (CHR 0x0A # ''[ITERATION 2]''),
      Line \<lparr>line_timestamp = ''2024-05-01 10:00:01.000000 UTC'',
            line_alias = PStr ''action/0/repeat/sequence/0'',
            line_path = ''action/0/repeat/sequence/0'', line_data = [], line_error = None\<rparr>]"

definition example_text :: string where
  "example_text =
     CHR 0x0A # ''[ITERATION 1]'' @ [CHR 0x0A]
     @ ''2024-05-01 10:00:00.000000 UTC | action/0/repeat/sequence/0 | action/0/repeat/sequence/0''
     @ [CHR 0x0A]
     @ ''2024-05-01 10:00:00.250000 UTC | Turn on light | action/1'' @ [CHR 0x0A]
     @ CHR 0x0A # ''[ITERATION 2]'' @ [CHR 0x0A]
     @ ''2024-05-01 10:00:01.000000 UTC | action/0/repeat/sequence/0 | action/0/repeat/sequence/0''"

section \<open>Properties of the Alias Mapper\<close>

lemma str_nat_digit: "n < 10 \<Longrightarrow> str_nat n = [digit_char n]"
  by (simp add: str_nat.simps)

lemmas walk_simps =
  str_nat_digit digit_char_def dict_get_def inherited_label_def path_sublevel_def py_str_def
  elem_path_def elem_entry_def child_base_def key_truthy_def

text \<open>
  Claim C5. The fragment \<open>{alias: "A", then: [{ }, {alias: "B"}]}\<close> at path \<open>action/0\<close>,
  that is, as element 0 of the list under \<open>action\<close>, adds exactly three entries to the
  mapping, whatever the mapping and the inherited alias were before: \<open>action/0\<close> with the
  label \<open>A\<close>, \<open>action/0/then/0\<close> with the label \<open>A//then/0\<close>, and \<open>action/0/then/1\<close> with
  the label \<open>B\<close>. For the definition that holds nothing but this fragment under \<open>action\<close>,
  \<open>load_automation\<close> returns the mapping with exactly these three entries.
\<close>

theorem alias_inheritance_example:
  "map_elems R (KStr ''action'') 0
     [PDict [(KStr ''alias'', PStr ''A''),
             (KStr ''then'', PList [PDict [], PDict [(KStr ''alias'', PStr ''B'')]])]]
     m nearest_alias nearest_alias_path
   = Inr (AList.update (KStr ''action/0/then/1'') (PStr ''B'')
       (AList.update (KStr ''action/0/then/0'') (PStr ''A//then/0'')
         (AList.update (KStr ''action/0'') (PStr ''A'') m)))
   \<and> load_automation_doc R
     (PDict [(KStr ''action'', PList
        [PDict [(KStr ''alias'', PStr ''A''),
                (KStr ''then'', PList [PDict [], PDict [(KStr ''alias'', PStr ''B'')]])]])])
   = Inr [(KStr ''action/0'', PStr ''A''), (KStr ''action/0/then/0'', PStr ''A//then/0''),
          (KStr ''action/0/then/1'', PStr ''B'')]"
  by (simp add: load_automation_doc_def walk_simps)

subsection \<open>Definitions without aliases\<close>

lemma no_alias_items_get: "no_alias_items kvs \<Longrightarrow> dict_get kvs ''alias'' = PNone"
  by (induction kvs) (auto simp: dict_get_def)

lemma set_update_subset: "set (AList.update k v m) \<subseteq> insert (k, v) (set m)"
  by (induction m) auto

lemma identity_labels_update:
  "identity_labels m \<Longrightarrow> identity_labels (AList.update k (key_val k) m)"
  using set_update_subset [of k "key_val k" m]
  by (auto simp: identity_labels_def list_all_iff)

lemma identity_elem_entry:
  "\<not> truthy na \<Longrightarrow> elem_entry R path PNone m na nap = Inr (AList.update (KStr path) (PStr path) m)"
  by (simp add: elem_entry_def)

text \<open>
  The walk keeps the identity labelling and does not raise: without an alias in the
  subtree and without an inherited alias, every entry it writes is a path with itself
  as label.
\<close>

lemma identity_walk:
  "no_alias v \<Longrightarrow> \<not> truthy na \<Longrightarrow> identity_labels m \<Longrightarrow>
     returns identity_labels (map_steps R base v m na nap)"
  "no_alias_list steps \<Longrightarrow> \<not> truthy na \<Longrightarrow> identity_labels m \<Longrightarrow>
     returns identity_labels (map_elems R base idx steps m na nap)"
  "no_alias_items kvs \<Longrightarrow> \<not> truthy na \<Longrightarrow> identity_labels m \<Longrightarrow>
     returns identity_labels (map_items R pre kvs m na nap)"
proof (induction R base v m na nap and R base idx steps m na nap and R pre kvs m na nap
       rule: map_steps_map_elems_map_items.induct)
  case (2 R base kvs m nearest_alias nearest_alias_path)
  then show ?case
    by (simp add: no_alias_items_get identity_labels_update)
next
  case (8 R base idx step steps m nearest_alias nearest_alias_path)
  have upd: "identity_labels (AList.update (KStr (elem_path base idx)) (PStr (elem_path base idx)) m)"
    using identity_labels_update [of m "KStr (elem_path base idx)"] "8.prems"(3) by simp
  show ?case
  proof (cases step)
    case (PDict kvs)
    with "8.prems" have na: "dict_get kvs ''alias'' = PNone"
      by (simp add: no_alias_items_get)
    from PDict "8.prems" upd na
    have "returns identity_labels
            (map_items R (Some (elem_path base idx @ ''/'')) kvs
               (AList.update (KStr (elem_path base idx)) (PStr (elem_path base idx)) m)
               nearest_alias nearest_alias_path)"
      using "8.IH"(1) [OF refl refl refl refl, of _ kvs]
      by (simp add: identity_elem_entry Let_def)
    then obtain m2 where m2: "map_items R (Some (elem_path base idx @ ''/'')) kvs
               (AList.update (KStr (elem_path base idx)) (PStr (elem_path base idx)) m)
               nearest_alias nearest_alias_path = Inr m2" and id2: "identity_labels m2"
      by (auto simp: returns_def split: sum.splits)
    from PDict "8.prems" na m2 id2 show ?thesis
      using "8.IH"(2) [OF refl refl refl refl, of _ m2]
      by (simp add: identity_elem_entry Let_def)
  next
    case PNone
    with "8.prems" upd show ?thesis
      using "8.IH"(2) [OF refl refl refl refl] by (simp add: identity_elem_entry Let_def)
  next
    case (PBool b)
    with "8.prems" upd show ?thesis
      using "8.IH"(2) [OF refl refl refl refl] by (simp add: identity_elem_entry Let_def)
  next
    case (PInt i)
    with "8.prems" upd show ?thesis
      using "8.IH"(2) [OF refl refl refl refl] by (simp add: identity_elem_entry Let_def)
  next
    case (PStr s)
    with "8.prems" upd show ?thesis
      using "8.IH"(2) [OF refl refl refl refl] by (simp add: identity_elem_entry Let_def)
  next
    case (PList xs)
    with "8.prems" upd show ?thesis
      using "8.IH"(2) [OF refl refl refl refl] by (simp add: identity_elem_entry Let_def)
  qed
next
  case (10 R pre key v kvs m nearest_alias nearest_alias_path)
  then show ?case
    by (auto simp: returns_def split: sum.splits)
qed (simp_all add: returns_def)

lemma identity_root:
  "no_alias_items kvs \<Longrightarrow> identity_labels m \<Longrightarrow>
     returns identity_labels (root_items R kvs m)"
proof (induction kvs arbitrary: m)
  case Nil
  then show ?case by (simp add: returns_def)
next
  case (Cons kv kvs)
  obtain key v where kv: "kv = (key, v)"
    by (cases kv)
  from Cons.prems kv have "returns identity_labels (map_steps R key v m PNone None)"
    by (simp add: identity_walk(1))
  then obtain m1 where "map_steps R key v m PNone None = Inr m1" and "identity_labels m1"
    by (auto simp: returns_def split: sum.splits)
  with Cons kv show ?case
    by simp
qed

text \<open>
  Claim C6. For a definition document (a dict) in which no dict at any depth has an
  \<open>alias\<close> key, \<open>load_automation\<close> returns a mapping, and every entry of that mapping has
  its own path as label.
\<close>

theorem no_alias_identity:
  "no_alias (PDict kvs) \<Longrightarrow>
     \<exists>m. load_automation_doc R (PDict kvs) = Inr m \<and> identity_labels m"
proof -
  assume "no_alias (PDict kvs)"
  moreover have "identity_labels []"
    by (simp add: identity_labels_def)
  ultimately have "returns identity_labels (root_items R kvs [])"
    by (simp add: identity_root)
  then show ?thesis
    by (auto simp: load_automation_doc_def returns_def split: sum.splits)
qed

theorem no_alias_identity_witness:
  "no_alias (PDict [(KStr ''sequence'', PList [PDict [(KStr ''service'', PStr ''light.turn_on'')],
                                               PDict [(KStr ''then'', PList [PDict []])]]),
                    (KStr ''mode'', PStr ''single'')])
   \<and> load_automation_doc (py_repr example_lib)
        (PDict [(KStr ''sequence'', PList [PDict [(KStr ''service'', PStr ''light.turn_on'')],
                                           PDict [(KStr ''then'', PList [PDict []])]]),
                (KStr ''mode'', PStr ''single'')])
      = Inr [(KStr ''sequence/0'', PStr ''sequence/0''), (KStr ''sequence/1'', PStr ''sequence/1''),
             (KStr ''sequence/1/then/0'', PStr ''sequence/1/then/0'')]
   \<and> identity_labels [(KStr ''sequence/0'', PStr ''sequence/0''),
             (KStr ''sequence/1'', PStr ''sequence/1''),
             (KStr ''sequence/1/then/0'', PStr ''sequence/1/then/0'')]"
  using no_alias_identity
    [of "[(KStr ''sequence'', PList [PDict [(KStr ''service'', PStr ''light.turn_on'')],
                                     PDict [(KStr ''then'', PList [PDict []])]]),
          (KStr ''mode'', PStr ''single'')]" "py_repr example_lib"]
  by (simp add: load_automation_doc_def walk_simps identity_labels_def Let_def)

subsection \<open>Labels are never empty\<close>

lemma labels_truthy_update:
  "truthy v \<Longrightarrow> labels_truthy m \<Longrightarrow> labels_truthy (AList.update k v m)"
  using set_update_subset [of k v m]
  by (auto simp: labels_truthy_def list_all_iff)

lemma inherited_label_nonempty: "inherited_label R na nap path = Inr label \<Longrightarrow> label \<noteq> []"
  by (auto simp: inherited_label_def split: sum.splits)

lemma elem_path_nonempty: "elem_path base idx \<noteq> []"
  by (simp add: elem_path_def)

lemma labels_truthy_elem_entry:
  "labels_truthy m \<Longrightarrow> path \<noteq> [] \<Longrightarrow>
     on_return labels_truthy (elem_entry R path local_alias m na nap)"
  by (auto simp: elem_entry_def on_return_def labels_truthy_update
      dest: inherited_label_nonempty split: sum.splits)

lemma labels_truthy_walk:
  "labels_truthy m \<Longrightarrow> on_return labels_truthy (map_steps R base v m na nap)"
  "labels_truthy m \<Longrightarrow> on_return labels_truthy (map_elems R base idx steps m na nap)"
  "labels_truthy m \<Longrightarrow> on_return labels_truthy (map_items R pre kvs m na nap)"
proof (induction R base v m na nap and R base idx steps m na nap and R pre kvs m na nap
       rule: map_steps_map_elems_map_items.induct)
  case (2 R base kvs m nearest_alias nearest_alias_path)
  show ?case
  proof (cases "truthy nearest_alias \<and> key_truthy base \<and> \<not> truthy (dict_get kvs ''alias'')")
    case True
    show ?thesis
    proof (cases "inherited_label R nearest_alias nearest_alias_path base")
      case (Inl e)
      with True show ?thesis
        by (simp add: on_return_def Let_def)
    next
      case (Inr label)
      then have "label \<noteq> []"
        by (rule inherited_label_nonempty)
      with "2.prems" have "labels_truthy (AList.update base (PStr label) m)"
        by (simp add: labels_truthy_update)
      with True Inr show ?thesis
        using "2.IH"(2) by (simp add: Let_def)
    qed
  next
    case False
    with "2.prems" show ?thesis
      using "2.IH"(1,3,4)
      by (auto simp: labels_truthy_update key_truthy_def Let_def)
  qed
next
  case (8 R base idx step steps m nearest_alias nearest_alias_path)
  show ?case
  proof (cases "elem_entry R (elem_path base idx)
                  (case step of PDict kvs \<Rightarrow> dict_get kvs ''alias'' | _ \<Rightarrow> PNone)
                  m nearest_alias nearest_alias_path")
    case (Inl e)
    then show ?thesis by (simp add: on_return_def Let_def)
  next
    case (Inr m1)
    with "8.prems" have t1: "labels_truthy m1"
      using labels_truthy_elem_entry
        [of m "elem_path base idx" R
            "case step of PDict kvs \<Rightarrow> dict_get kvs ''alias'' | _ \<Rightarrow> PNone"
            nearest_alias nearest_alias_path]
      by (simp add: on_return_def elem_path_nonempty)
    show ?thesis
    proof (cases step)
      case (PDict kvs)
      show ?thesis
      proof (cases "map_items R (Some (elem_path base idx @ ''/'')) kvs m1
                      (if truthy (dict_get kvs ''alias'') then dict_get kvs ''alias''
                       else nearest_alias)
                      (if truthy (dict_get kvs ''alias'') then Some (KStr (elem_path base idx))
                       else nearest_alias_path)")
        case (Inl e)
        with Inr PDict show ?thesis by (simp add: on_return_def Let_def)
      next
        case m2: (Inr m2)
        from Inr t1 m2 have "labels_truthy m2"
          using "8.IH"(1) [OF refl refl refl refl, of m1 kvs] unfolding PDict
          by (simp add: on_return_def cong: if_cong)
        with Inr m2 show ?thesis
          using "8.IH"(2) [OF refl refl refl refl, of m1 m2] unfolding PDict
          by (simp add: Let_def cong: if_cong)
      qed
    next
      case PNone
      with Inr t1 show ?thesis
        using "8.IH"(2) [OF refl refl refl refl, of m1 m1] by (simp add: Let_def)
    next
      case (PBool b)
      with Inr t1 show ?thesis
        using "8.IH"(2) [OF refl refl refl refl, of m1 m1] by (simp add: Let_def)
    next
      case (PInt i)
      with Inr t1 show ?thesis
        using "8.IH"(2) [OF refl refl refl refl, of m1 m1] by (simp add: Let_def)
    next
      case (PStr s)
      with Inr t1 show ?thesis
        using "8.IH"(2) [OF refl refl refl refl, of m1 m1] by (simp add: Let_def)
    next
      case (PList xs)
      with Inr t1 show ?thesis
        using "8.IH"(2) [OF refl refl refl refl, of m1 m1] by (simp add: Let_def)
    qed
  qed
next
  case (10 R pre key v kvs m nearest_alias nearest_alias_path)
  then show ?case
    by (auto simp: on_return_def split: sum.splits)
qed (simp_all add: on_return_def)

lemma labels_truthy_root:
  "labels_truthy m \<Longrightarrow> on_return labels_truthy (root_items R kvs m)"
proof (induction kvs arbitrary: m)
  case Nil
  then show ?case by (simp add: on_return_def)
next
  case (Cons kv kvs)
  obtain key v where kv: "kv = (key, v)"
    by (cases kv)
  show ?case
  proof (cases "map_steps R key v m PNone None")
    case (Inl e)
    with Cons kv show ?thesis by (simp add: on_return_def)
  next
    case (Inr m1)
    with Cons.prems have "labels_truthy m1"
      using labels_truthy_walk(1) [of m R key v PNone None] by (simp add: on_return_def)
    with Cons Inr kv show ?thesis by simp
  qed
qed

text \<open>
  Every label that \<open>load_automation\<close> stores is truthy: an alias that passed the test
  \<open>if local_alias\<close>, a non-empty string, or a truthy key.
\<close>

lemma mapper_labels_truthy:
  "load_automation_doc R automation = Inr m \<Longrightarrow> labels_truthy m"
proof (cases automation)
  case (PDict kvs)
  assume "load_automation_doc R automation = Inr m"
  with PDict have "root_items R kvs [] = Inr m"
    by (simp add: load_automation_doc_def)
  moreover have "labels_truthy []"
    by (simp add: labels_truthy_def)
  ultimately show ?thesis
    using labels_truthy_root [of "[]" R kvs] by (simp add: on_return_def)
qed (simp_all add: load_automation_doc_def)

subsection \<open>Malformed definitions\<close>









section \<open>Properties of the Trace Normalizer\<close>

subsection \<open>The example trace\<close>

lemmas example_defs =
  example_lib_def example_trace_def example_event_def example_fromisoformat_def
  example_strftime_def T0_def T1_def T2_def

lemmas normalize_defs =
  normalize_trace_def collect_events_def sort_events_def sort_key_of_def build_line_def
  event_time_def event_data_def dict_get_def resolve_alias_def variations_def
  iteration_marker_def

text \<open>
  The events with the timestamps \<open>T2\<close>, \<open>T0\<close>, \<open>T1\<close> come out in the order \<open>T0\<close>, \<open>T1\<close>,
  \<open>T2\<close>, with a marker before each of the two events on a repeat path.
\<close>

lemma example_normalize:
  "normalize_trace example_lib () [(KStr ''actions/1'', PStr ''Turn on light'')] example_trace
     = Inr example_output"
  by (simp add: example_output_def example_defs normalize_defs replace.simps str_nat_digit
      digit_char_def)

lemma example_format: "join [CHR 0x0A] (format_output example_lib example_output) = example_text"
  by (simp add: example_output_def example_text_def format_output_def format_entry_def py_str_def)

lemma example_run:
  "files w ''trace.json'' = Some example_trace_text \<Longrightarrow>
   alias_mapping_obj w = [(KStr ''actions/1'', PStr ''Turn on light'')] \<Longrightarrow>
   process_trace example_lib ''trace.json'' (Some ''out.txt'') None w
     = (Inr example_output, w\<lparr>files := append_file ''out.txt'' example_text (files w)\<rparr>)"
proof -
  have "pytz_timezone example_lib ''UTC'' = Some ()"
    by (simp add: example_lib_def)
  moreover have "json_load example_lib example_trace_text = Some example_trace"
    by (simp add: example_lib_def example_json_load_def)
  moreover assume "files w ''trace.json'' = Some example_trace_text"
    and "alias_mapping_obj w = [(KStr ''actions/1'', PStr ''Turn on light'')]"
  ultimately show ?thesis
    by (simp add: process_trace_def example_normalize example_format)
qed

subsection \<open>Order of the events\<close>

lemma decorate_snd: "decorate L evs = Inr kes \<Longrightarrow> map snd kes = evs"
  by (induction evs arbitrary: kes) (auto split: sum.splits)

lemma decorate_keys:
  "decorate L evs = Inr kes \<Longrightarrow> p \<in> set kes \<Longrightarrow> sort_key_of L (snd p) = Inr (fst p)"
  by (induction evs arbitrary: kes) (auto split: sum.splits)

lemma decorate_again:
  "(\<And>p. p \<in> set kes \<Longrightarrow> sort_key_of L (snd p) = Inr (fst p)) \<Longrightarrow>
     decorate L (map snd kes) = Inr kes"
  by (induction kes) auto

text \<open>The sorted list holds the collected events, each as often as before.\<close>

lemma sort_events_permutation:
  "sort_events L evs = Inr event_list \<Longrightarrow> mset event_list = mset evs"
proof -
  assume "sort_events L evs = Inr event_list"
  then obtain kes where d: "decorate L evs = Inr kes"
    and e: "event_list = map snd (sort_key fst kes)"
    by (auto simp: sort_events_def split: sum.splits)
  have "mset (map snd (sort_key fst kes)) = mset (map snd kes)"
    by simp
  with d e show ?thesis
    by (simp add: decorate_snd)
qed

text \<open>The sort keys of the sorted list ascend; an event without a timestamp has the key 0.\<close>

lemma sort_events_ascending:
  "sort_events L evs = Inr event_list \<Longrightarrow>
     \<exists>kes. decorate L event_list = Inr kes \<and> sorted (map fst kes)"
proof -
  assume "sort_events L evs = Inr event_list"
  then obtain kes where d: "decorate L evs = Inr kes"
    and e: "event_list = map snd (sort_key fst kes)"
    by (auto simp: sort_events_def split: sum.splits)
  have "decorate L (map snd (sort_key fst kes)) = Inr (sort_key fst kes)"
    by (rule decorate_again) (simp add: decorate_keys [OF d])
  with e show ?thesis
    by auto
qed

lemma untimed_key: "map_of ev (KStr ''timestamp'') = None \<Longrightarrow> sort_key_of L ev = Inr 0"
  by (simp add: sort_key_of_def)

text \<open>Events with the same sort key keep the order they have in the collected list.\<close>

lemma sort_events_stable:
  "sort_events L evs = Inr event_list \<Longrightarrow>
     filter (\<lambda>ev. sort_key_of L ev = Inr k) event_list
       = filter (\<lambda>ev. sort_key_of L ev = Inr k) evs"
proof -
  assume "sort_events L evs = Inr event_list"
  then obtain kes where d: "decorate L evs = Inr kes"
    and e: "event_list = map snd (sort_key fst kes)"
    by (auto simp: sort_events_def split: sum.splits)
  have same: "filter (\<lambda>p. sort_key_of L (snd p) = Inr k) xs = filter (\<lambda>p. fst p = k) xs"
    if "set xs \<subseteq> set kes" for xs
  proof (rule filter_cong [OF refl])
    fix p
    assume "p \<in> set xs"
    with that have "sort_key_of L (snd p) = Inr (fst p)"
      using decorate_keys [OF d] by blast
    then show "(sort_key_of L (snd p) = Inr k) = (fst p = k)"
      by auto
  qed
  have "filter (\<lambda>ev. sort_key_of L ev = Inr k) event_list
          = map snd (filter (\<lambda>p. sort_key_of L (snd p) = Inr k) (sort_key fst kes))"
    by (simp add: e filter_map comp_def)
  also have "\<dots> = map snd (filter (\<lambda>p. fst p = k) (sort_key fst kes))"
    by (simp add: same)
  also have "\<dots> = map snd (filter (\<lambda>p. fst p = k) kes)"
    by (simp add: sort_key_stable)
  also have "\<dots> = map snd (filter (\<lambda>p. sort_key_of L (snd p) = Inr k) kes)"
    by (simp add: same)
  also have "\<dots> = filter (\<lambda>ev. sort_key_of L ev = Inr k) (map snd kes)"
    by (simp add: filter_map comp_def)
  finally show ?thesis
    by (simp add: decorate_snd [OF d])
qed

subsection \<open>Events without a timestamp\<close>

lemma untimed_line: "map_of ev (KStr ''timestamp'') = None \<Longrightarrow> build_line L tz am ev = Inl KeyError"
  by (simp add: build_line_def event_time_def)

lemma process_events_raises:
  "ev \<in> set evs \<Longrightarrow> build_line L tz am ev = Inl e \<Longrightarrow>
     \<exists>e'. process_events L tz am n evs = Inl e'"
proof (induction evs arbitrary: n)
  case Nil
  then show ?case by simp
next
  case (Cons a evs)
  show ?case
  proof (cases "build_line L tz am a")
    case (Inl x)
    then show ?thesis by simp
  next
    case (Inr line)
    with Cons.prems have "ev \<in> set evs"
      by auto
    then obtain e1 e2 where "process_events L tz am n evs = Inl e1"
      and "process_events L tz am (Suc n) evs = Inl e2"
      using Cons.IH Cons.prems(2) by blast
    with Inr show ?thesis by simp
  qed
qed

text \<open>
  A trace that holds an event without a timestamp never yields an output: the sort
  accepts the event, and the loop then raises on \<open>ev['timestamp']\<close> (or an earlier event
  raises).
\<close>

lemma untimed_event_raises:
  assumes "ev \<in> set (collect_events table)" and "map_of ev (KStr ''timestamp'') = None"
  shows "\<exists>e. normalize_trace L tz am (PDict [(KStr ''trace'', PDict [(KStr ''trace'', PDict table)])]) = Inl e"
proof (cases "sort_events L (collect_events table)")
  case (Inl e)
  then show ?thesis by (simp add: normalize_trace_def)
next
  case (Inr event_list)
  then have "set event_list = set (collect_events table)"
    using sort_events_permutation mset_eq_setD by blast
  with assms have "\<exists>e. process_events L tz am 0 event_list = Inl e"
    by (auto intro: process_events_raises untimed_line)
  with Inr show ?thesis by (auto simp: normalize_trace_def)
qed

text \<open>
  Claim C1 says that an event without a timestamp appears first in the output. On the
  example trace with the timestamps \<open>T2\<close>, \<open>T0\<close>, \<open>T1\<close> and one more event that has no
  timestamp, the code returns no output: it raises \<open>KeyError\<close>.
\<close>

theorem untimed_event_example:
  "normalize_trace example_lib () [(KStr ''actions/1'', PStr ''Turn on light'')] example_trace_untimed
     = Inl KeyError"
  by (simp add: example_trace_untimed_def example_defs normalize_defs replace.simps
      str_nat_digit digit_char_def)

text \<open>
  Claim C10 says that two events that both lack a timestamp appear in the output in
  their collected order. On a trace with two such events under one path key the code
  returns no output: it raises \<open>KeyError\<close>.
\<close>

theorem untimed_pair_example:
  "normalize_trace example_lib () []
     (PDict [(KStr ''trace'', PDict [(KStr ''trace'', PDict
        [(KStr ''action/0'',
            PList [PDict [(KStr ''path'', PStr ''action/0''), (KStr ''result'', PStr ''first'')],
                   PDict [(KStr ''path'', PStr ''action/0''), (KStr ''result'', PStr ''second'')]])])])])
     = Inl KeyError"
  by (simp add: normalize_defs)

subsection \<open>Iteration markers\<close>

lemma with_markers_Nil: "with_markers n [] = []"
  by (simp add: with_markers_def)

lemma entries_at_Suc:
  "entries_at n (l # ls) (Suc i) = entries_at (if is_repeat l then Suc n else n) ls i"
  by (simp add: entries_at_def)

lemma with_markers_Cons:
  "with_markers n (l # ls) =
     (if is_repeat l then [Marker (iteration_marker (Suc n))] else []) @ [Line l]
     @ with_markers (if is_repeat l then Suc n else n) ls"
proof -
  have "with_markers n (l # ls) =
          entries_at n (l # ls) 0
          @ concat (map (\<lambda>i. entries_at n (l # ls) (Suc i)) [0..<length ls])"
    by (simp add: with_markers_def map_upt_Suc del: upt_Suc)
  also have "entries_at n (l # ls) 0 =
          (if is_repeat l then [Marker (iteration_marker (Suc n))] else []) @ [Line l]"
    by (simp add: entries_at_def)
  finally show ?thesis
    by (simp add: entries_at_Suc with_markers_def)
qed

text \<open>
  Claim C3, as stated, fails: the marker is not exactly the string \<open>[ITERATION 1]\<close>. On
  the example trace the first entry of the output is the marker string that begins with
  a newline character, and the formatter renders it with that newline.
\<close>

theorem marker_has_newline:
  "normalize_trace example_lib () [(KStr ''actions/1'', PStr ''Turn on light'')] example_trace
     = Inr example_output
   \<and> hd example_output = Marker (CHR 0x0A # ''[ITERATION 1]'')
   \<and> hd example_output \<noteq> Marker ''[ITERATION 1]''
   \<and> format_entry example_lib (hd example_output) \<noteq> ''[ITERATION 1]''"
  by (simp add: example_normalize) (simp add: example_output_def format_entry_def)

text \<open>
  Claim C3, amended. The loop over the events in timestamp order, started with the
  counter at \<open>n\<close> (\<open>process_trace\<close> starts it at 0), raises the exception of the first
  event whose display record cannot be built; otherwise its output is, for each event
  in order, the display record of the event, preceded if and only if the path of the
  event contains \<open>repeat\<close> by one marker. The marker is a newline character followed by
  \<open>[ITERATION k]\<close>, where \<open>k\<close> is \<open>n\<close> plus the number of events with such a path up to
  and including this one. The formatter renders a marker as its string, unchanged.
\<close>

theorem iteration_markers:
  "process_events L tz alias_mapping n evs =
     (case build_lines L tz alias_mapping evs of
        Inl e \<Rightarrow> Inl e
      | Inr lines \<Rightarrow> Inr (with_markers n lines))
   \<and> iteration_marker k = CHR 0x0A # ''[ITERATION '' @ str_nat k @ '']''
   \<and> format_output L [Marker s] = [s]"
proof (intro conjI)
  show "process_events L tz alias_mapping n evs =
     (case build_lines L tz alias_mapping evs of
        Inl e \<Rightarrow> Inl e
      | Inr lines \<Rightarrow> Inr (with_markers n lines))"
  proof (induction evs arbitrary: n)
    case Nil
    show ?case by (simp add: with_markers_Nil)
  next
    case (Cons ev evs)
    show ?case
    proof (cases "build_line L tz alias_mapping ev")
      case (Inl e)
      then show ?thesis by simp
    next
      case (Inr line)
      then show ?thesis
        by (simp add: Cons.IH with_markers_Cons is_repeat_def split: sum.splits)
    qed
  qed
  show "iteration_marker k = CHR 0x0A # ''[ITERATION '' @ str_nat k @ '']''"
    by (simp add: iteration_marker_def)
  show "format_output L [Marker s] = [s]"
    by (simp add: format_output_def format_entry_def)
qed

theorem iteration_markers_witness:
  "process_events example_lib () [] 0
     [[(KStr ''path'', PStr ''action/0/repeat/sequence/0''), (KStr ''timestamp'', PStr T0)],
      [(KStr ''path'', PStr ''action/1''), (KStr ''timestamp'', PStr T1)],
      [(KStr ''path'', PStr ''action/0/repeat/sequence/1''), (KStr ''timestamp'', PStr T2)]]
   = Inr (with_markers 0
       [\<lparr>line_timestamp = ''2024-05-01 10:00:00.000000 UTC'',
         line_alias = PStr ''action/0/repeat/sequence/0'',
         line_path = ''action/0/repeat/sequence/0'', line_data = [], line_error = None\<rparr>,
        \<lparr>line_timestamp = ''2024-05-01 10:00:00.250000 UTC'',
         line_alias = PStr ''action/1'',
         line_path = ''action/1'', line_data = [], line_error = None\<rparr>,
        \<lparr>line_timestamp = ''2024-05-01 10:00:01.000000 UTC'',
         line_alias = PStr ''action/0/repeat/sequence/1'',
         line_path = ''action/0/repeat/sequence/1'', line_data = [], line_error = None\<rparr>])
   \<and> with_markers 0
       [\<lparr>line_timestamp = ''2024-05-01 10:00:00.000000 UTC'',
         line_alias = PStr ''action/0/repeat/sequence/0'',
         line_path = ''action/0/repeat/sequence/0'', line_data = [], line_error = None\<rparr>,
        \<lparr>line_timestamp = ''2024-05-01 10:00:00.250000 UTC'',
         line_alias = PStr ''action/1'',
         line_path = ''action/1'', line_data = [], line_error = None\<rparr>,
        \<lparr>line_timestamp = ''2024-05-01 10:00:01.000000 UTC'',
         line_alias = PStr ''action/0/repeat/sequence/1'',
         line_path = ''action/0/repeat/sequence/1'', line_data = [], line_error = None\<rparr>]
     = [Marker (CHR 0x0A # ''[ITERATION 1]''),
        Line \<lparr>line_timestamp = ''2024-05-01 10:00:00.000000 UTC'',
         line_alias = PStr ''action/0/repeat/sequence/0'',
         line_path = ''action/0/repeat/sequence/0'', line_data = [], line_error = None\<rparr>,
        Line \<lparr>line_timestamp = ''2024-05-01 10:00:00.250000 UTC'',
         line_alias = PStr ''action/1'',
         line_path = ''action/1'', line_data = [], line_error = None\<rparr>,
        Marker (CHR 0x0A # ''[ITERATION 2]''),
        Line \<lparr>line_timestamp = ''2024-05-01 10:00:01.000000 UTC'',
         line_alias = PStr ''action/0/repeat/sequence/1'',
         line_path = ''action/0/repeat/sequence/1'', line_data = [], line_error = None\<rparr>]
   \<and> format_output example_lib [Marker (CHR 0x0A # ''[ITERATION 2]'')]
     = [CHR 0x0A # ''[ITERATION 2]'']"
  using iteration_markers
    [of example_lib "()" "[]" 0
        "[[(KStr ''path'', PStr ''action/0/repeat/sequence/0''), (KStr ''timestamp'', PStr T0)],
          [(KStr ''path'', PStr ''action/1''), (KStr ''timestamp'', PStr T1)],
          [(KStr ''path'', PStr ''action/0/repeat/sequence/1''), (KStr ''timestamp'', PStr T2)]]"
        2 "CHR 0x0A # ''[ITERATION 2]''"]
  by (simp add: example_defs build_line_def event_time_def event_data_def dict_get_def
      resolve_alias_def variations_def replace.simps with_markers_def entries_at_def
      is_repeat_def iteration_marker_def str_nat_digit digit_char_def)

subsection \<open>Alias resolution\<close>

lemma first_variation_find:
  "first_variation am vars =
     (case find (\<lambda>v. map_of am (KStr v) \<noteq> None) vars of
        None \<Rightarrow> None
      | Some v \<Rightarrow> map_of am (KStr v))"
  by (induction vars) (auto split: option.splits)

text \<open>\<open>replace\<close> goes on after an occurrence, and changes nothing when there is none.\<close>

lemma replace_occurrence:
  "old \<noteq> [] \<Longrightarrow> replace old new (old @ s) = new @ replace old new s"
  by (subst replace.simps) simp

lemma replace_absent: "\<not> contains old s \<Longrightarrow> replace old new s = s"
proof (induction s)
  case Nil
  show ?case by (simp add: replace.simps)
next
  case (Cons c s)
  then show ?case
    by (subst replace.simps) auto
qed

text \<open>
  Claim C4, as stated, fails: a substitution replaces every occurrence of its
  substring, not the first one only. With a mapping that has the one key
  \<open>actions/0/actions/1\<close>, the path \<open>action/0/action/1\<close>, which is not a key, resolves to the
  label stored under that key; with first-occurrence substitutions no variant is a key
  and the alias would be the path.
\<close>

theorem replace_is_not_first_only:
  "resolve_alias [(KStr ''actions/0/actions/1'', PStr ''X'')] ''action/0/action/1'' = PStr ''X''
   \<and> map_of [(KStr ''actions/0/actions/1'', PStr ''X'')] (KStr ''action/0/action/1'') = None
   \<and> resolve_alias_first_only [(KStr ''actions/0/actions/1'', PStr ''X'')] ''action/0/action/1''
       = PStr ''action/0/action/1''"
  by (simp add: resolve_alias_def resolve_alias_first_only_def variations_def
      variations_first_only_def replace.simps dict_get_def)

lemma resolve_alias_find:
  "map_of am (KStr path) = None \<Longrightarrow>
   resolve_alias am path =
     (case find (\<lambda>v. map_of am (KStr v) \<noteq> None) (variations path) of
        None \<Rightarrow> PStr path
      | Some v \<Rightarrow> if truthy (dict_get am v) then dict_get am v else PStr path)"
  by (auto simp: resolve_alias_def first_variation_find dict_get_def split: option.splits)

text \<open>
  Claim C4, amended. For a path that is not a key of the mapping, the alias is found
  from the six variants of the path, in the fixed order action/ to actions/, actions/ to
  action/, condition/ to conditions/, conditions/ to condition/, trigger/ to triggers/,
  triggers/ to trigger/, each the path with every occurrence of the substring replaced:
  the alias is the value stored under the first variant that is a key of the mapping,
  when that value is truthy; it is the path itself when no variant is a key or that value
  is falsy.
\<close>

theorem resolve_alias_variations:
  "map_of alias_mapping (KStr path) = None \<Longrightarrow>
   resolve_alias alias_mapping path =
     (case find (\<lambda>v. map_of alias_mapping (KStr v) \<noteq> None)
             [replace ''action/'' ''actions/'' path,
              replace ''actions/'' ''action/'' path,
              replace ''condition/'' ''conditions/'' path,
              replace ''conditions/'' ''condition/'' path,
              replace ''trigger/'' ''triggers/'' path,
              replace ''triggers/'' ''trigger/'' path] of
        None \<Rightarrow> PStr path
      | Some v \<Rightarrow>
          if truthy (dict_get alias_mapping v) then dict_get alias_mapping v else PStr path)"
  using resolve_alias_find [of alias_mapping path]
  by (simp only: variations_def)

theorem resolve_alias_variations_witness:
  "map_of [(KStr ''actions/0'', PStr ''Turn on light'')] (KStr ''action/0'') = None
   \<and> resolve_alias [(KStr ''actions/0'', PStr ''Turn on light'')] ''action/0'' = PStr ''Turn on light''
   \<and> map_of [(KStr ''actions/0'', PStr ''Turn on light'')] (KStr ''sequence/3'') = None
   \<and> resolve_alias [(KStr ''actions/0'', PStr ''Turn on light'')] ''sequence/3'' = PStr ''sequence/3''"
  using resolve_alias_variations [of "[(KStr ''actions/0'', PStr ''Turn on light'')]" "''action/0''"]
    resolve_alias_variations [of "[(KStr ''actions/0'', PStr ''Turn on light'')]" "''sequence/3''"]
  by (simp add: replace.simps dict_get_def)

subsection \<open>The mapping is only read\<close>

text \<open>
  Claim C7. Whatever the trace, the options and the outcome of a call of
  \<open>process_trace\<close>, the dict passed as \<open>alias_mapping\<close> is afterwards what it was before;
  so a later call that is given the same dict behaves as it would with the dict in its
  original state.
\<close>

theorem process_trace_keeps_mapping:
  "alias_mapping_obj (snd (process_trace L trace_file output_file timezone w)) = alias_mapping_obj w
   \<and> process_trace L trace_file' output_file' timezone'
        (snd (process_trace L trace_file output_file timezone w))
     = process_trace L trace_file' output_file' timezone'
        ((snd (process_trace L trace_file output_file timezone w))
           \<lparr>alias_mapping_obj := alias_mapping_obj w\<rparr>)"
proof -
  have "alias_mapping_obj (snd (process_trace L trace_file output_file timezone w))
          = alias_mapping_obj w"
    by (simp add: process_trace_def split: option.splits sum.splits)
  then show ?thesis
    by (metis world.surjective world.update_convs(1))
qed

theorem process_trace_keeps_mapping_witness:
  "fst (process_trace example_lib ''trace.json'' (Some ''out.txt'') None example_world)
     = Inr example_output
   \<and> alias_mapping_obj
       (snd (process_trace example_lib ''trace.json'' (Some ''out.txt'') None example_world))
     = [(KStr ''actions/1'', PStr ''Turn on light'')]"
  using process_trace_keeps_mapping
    [of example_lib "''trace.json''" "Some ''out.txt''" None example_world]
    example_run [of example_world]
  by (simp add: example_world_def)

subsection \<open>Writing the output file\<close>

lemma process_trace_writes:
  "name \<noteq> [] \<Longrightarrow> fst (process_trace L trace_file (Some name) timezone w) = Inr out \<Longrightarrow>
     files (snd (process_trace L trace_file (Some name) timezone w))
       = append_file name (join [CHR 0x0A] (format_output L out)) (files w)"
  by (auto simp: process_trace_def split: option.splits sum.splits)

text \<open>A call that raises has written nothing.\<close>

lemma process_trace_failure_keeps_files:
  "fst (process_trace L trace_file output_file timezone w) = Inl e \<Longrightarrow>
     snd (process_trace L trace_file output_file timezone w) = w"
  by (auto simp: process_trace_def split: option.splits sum.splits if_splits)

text \<open>
  Claim C8. With an output file configured (a non-empty name), two calls of
  \<open>process_trace\<close> that both return, the second in the world the first one left, leave
  in the file what it held before the first call (nothing, if it did not exist),
  followed by the formatted text of the first call, followed by the formatted text of
  the second call; after the first call the file holds the old content followed by the
  first text, so the second call changes none of it.
\<close>

theorem two_runs_append:
  assumes "name \<noteq> []"
    and "fst (process_trace L trace_file (Some name) timezone w) = Inr out1"
    and "fst (process_trace L trace_file' (Some name) timezone'
                (snd (process_trace L trace_file (Some name) timezone w))) = Inr out2"
  shows "files (snd (process_trace L trace_file (Some name) timezone w)) name
           = Some ((case files w name of None \<Rightarrow> [] | Some old \<Rightarrow> old)
                   @ join [CHR 0x0A] (format_output L out1))
         \<and> files (snd (process_trace L trace_file' (Some name) timezone'
                     (snd (process_trace L trace_file (Some name) timezone w)))) name
           = Some ((case files w name of None \<Rightarrow> [] | Some old \<Rightarrow> old)
                   @ join [CHR 0x0A] (format_output L out1)
                   @ join [CHR 0x0A] (format_output L out2))"
  using assms by (simp add: process_trace_writes append_file_def)

theorem two_runs_append_witness:
  "''out.txt'' \<noteq> []
   \<and> fst (process_trace example_lib ''trace.json'' (Some ''out.txt'') None example_world)
       = Inr example_output
   \<and> fst (process_trace example_lib ''trace.json'' (Some ''out.txt'') None
            (snd (process_trace example_lib ''trace.json'' (Some ''out.txt'') None example_world)))
       = Inr example_output
   \<and> files example_world ''out.txt'' = None
   \<and> files (snd (process_trace example_lib ''trace.json'' (Some ''out.txt'') None example_world))
        ''out.txt'' = Some example_text
   \<and> files (snd (process_trace example_lib ''trace.json'' (Some ''out.txt'') None
              (snd (process_trace example_lib ''trace.json'' (Some ''out.txt'') None example_world))))
        ''out.txt'' = Some (example_text @ example_text)"
proof -
  let ?w1 = "example_world\<lparr>files := append_file ''out.txt'' example_text (files example_world)\<rparr>"
  have r1: "process_trace example_lib ''trace.json'' (Some ''out.txt'') None example_world
             = (Inr example_output, ?w1)"
    by (rule example_run) (simp_all add: example_world_def)
  have r2: "process_trace example_lib ''trace.json'' (Some ''out.txt'') None ?w1
             = (Inr example_output,
                ?w1\<lparr>files := append_file ''out.txt'' example_text (files ?w1)\<rparr>)"
    by (rule example_run) (simp_all add: example_world_def append_file_def)
  have h: "''out.txt'' \<noteq> []"
    by simp
  show ?thesis
    using two_runs_append [OF h, of example_lib "''trace.json''" None example_world
        example_output "''trace.json''" None example_output]
    by (simp add: r1 r2 example_format) (simp add: example_world_def)
qed

section \<open>Properties of the alias check\<close>

text \<open>
  Whenever the lookup of the friendly name in the trace raises, whatever the exception,
  \<open>friendly_name\<close> stays \<open>None\<close> and \<open>alert_name\<close> is the non-empty alert text that names
  the main alias of the definition and \<open>None\<close> as the friendly name.
\<close>

lemma failed_lookup_alerts:
  "friendly_name_lookup trace_data = Inl e \<Longrightarrow>
     friendly_name_of trace_data = PNone
     \<and> alert_name R trace_data (PDict kvs) = Inr (alert_text R (dict_get kvs ''alias'') PNone)
     \<and> alert_text R (dict_get kvs ''alias'') PNone \<noteq> []"
  by (simp add: friendly_name_of_def alert_name_def alert_text_def)

lemma failed_lookup_examples:
  "friendly_name_lookup example_trace = Inl KeyError
   \<and> friendly_name_lookup
       (PDict [(KStr ''trace'', PDict [(KStr ''trace'', PDict [(KStr ''trigger/0'', PStr ''state'')])])])
      = Inl TypeError"
  by (simp add: friendly_name_lookup_def example_trace_def)

text \<open>
  With colorama installed the header on the screen holds the alert and raises nothing;
  with an output file the alert is part of the header written to the file.
\<close>

lemma screen_header_emits:
  "colorama_installed E \<Longrightarrow> alert \<noteq> [] \<Longrightarrow>
     snd (screen_header E summary alert automation_yaml mapping ys ms) = None
     \<and> (Print (Fore_RED @ alert @ Style_RESET_ALL)
           \<in> set (fst (screen_header E summary alert automation_yaml mapping ys ms))
         \<or> RichPrint (''[bold red]'' @ alert @ ''[/bold red]'')
           \<in> set (fst (screen_header E summary alert automation_yaml mapping ys ms)))"
  by (simp add: screen_header_def)

text \<open>
  Without colorama a non-empty alert ends the header, and the run, with
  \<open>UnboundLocalError\<close>, after the parameter line.
\<close>

lemma screen_header_unbound:
  "\<not> colorama_installed E \<Longrightarrow> alert \<noteq> [] \<Longrightarrow>
     screen_header E summary alert automation_yaml mapping ys ms
       = ([Print summary], Some UnboundLocalError)"
  by (simp add: screen_header_def)

lemma main_screen_unbound:
  "\<not> colorama_installed E \<Longrightarrow> alert \<noteq> [] \<Longrightarrow>
     main_screen L E a s tz alert automation_yaml mapping
       = (Inl UnboundLocalError, s\<lparr>stdout := stdout s @ [Print (params_summary a tz)]\<rparr>)"
  by (simp add: main_screen_def screen_header_unbound)

text \<open>
  Claim C9 says that the alert is still emitted, and is not fatal, when the lookup of
  the friendly name fails. On a run without an output file and without the optional
  package colorama, for a definition with the main alias \<open>Porch light\<close> and a trace that
  has no \<open>trigger/0\<close> entry, \<open>main\<close> prints the parameter line and then raises
  \<open>UnboundLocalError\<close>: the alert is not printed, and neither is anything after it.
\<close>

theorem alert_without_colorama_example:
  "main example_lib example_env example_args example_session
     = (Inl UnboundLocalError,
        example_session\<lparr>stdout :=
          [Print (''[PARAMETERS] yaml_file=automation.yaml | trace_log=trace.json''
                  @ '' | output=[stdout] | timezone=UTC'' @ [CHR 0x0A])]\<rparr>)"
proof -
  have env: "yaml_safe_load example_env example_yaml_text = Some example_automation"
    "local_zone example_env = None" "\<not> colorama_installed example_env"
    by (simp_all add: example_env_def)
  have lib: "json_load example_lib example_trace_text = Some example_trace"
    by (simp add: example_lib_def example_json_load_def)
  have files: "disk example_session ''automation.yaml'' = Some example_yaml_text"
    "disk example_session ''trace.json'' = Some example_trace_text"
    "stdout example_session = []"
    by (simp_all add: example_session_def)
  have args: "arg_yaml_file example_args = ''automation.yaml''"
    "arg_trace_log example_args = ''trace.json''"
    "arg_output example_args = None" "arg_timezone example_args = None"
    by (simp_all add: example_args_def)
  have mapping: "load_automation_doc (py_repr example_lib) example_automation = Inr []"
    by (simp add: load_automation_doc_def example_automation_def)
  have lookup: "friendly_name_lookup example_trace = Inl KeyError"
    by (simp add: friendly_name_lookup_def example_trace_def)
  have alert: "alert_name (py_repr example_lib) example_trace example_automation
                 = Inr (alert_text (py_repr example_lib) (PStr ''Porch light'') PNone)"
    using failed_lookup_alerts [OF lookup, of "py_repr example_lib"]
    by (simp add: example_automation_def dict_get_def)
  have nonempty: "alert_text (py_repr example_lib) (PStr ''Porch light'') PNone \<noteq> []"
    by (simp add: alert_text_def)
  show ?thesis
    by (simp add: main_def load_automation_def get_timezone_def env lib files args mapping alert
        main_screen_unbound nonempty params_summary_def)
qed

end
